theory Spec2Isabelle
  imports Main "HOL-Library.Multiset" "HOL-Library.List_Lexorder" "HOL-Library.Char_ord"
begin

section \<open>Python values, errors and the operations the server uses on them\<close>

text \<open>
  The server handles the loosely typed records of the platform client: every entity and
  relationship is a dictionary from field names to values.  A dictionary is an association
  list (the first entry of a key is the one that counts), so that a field that is absent
  and a field that is present with the value \<open>None\<close> stay different.
\<close>

datatype pyval =
    PNone
  | PBool bool
  | PInt int
  | PStr string
  | PList "pyval list"
  | PDict "(string \<times> pyval) list"

datatype error =
    RuntimeError string
  | KeyError
  | TypeError
  | AttributeError

type_synonym 'a res = "error + 'a"

definition res_bind :: "'a res \<Rightarrow> ('a \<Rightarrow> 'b res) \<Rightarrow> 'b res" where
  "res_bind m f = (case m of Inl e \<Rightarrow> Inl e | Inr x \<Rightarrow> f x)"

text \<open>A comprehension or a \<open>for\<close> loop whose body may raise: the first error ends it.\<close>

primrec map_res :: "('a \<Rightarrow> 'b res) \<Rightarrow> 'a list \<Rightarrow> 'b list res" where
  "map_res f [] = Inr []"
| "map_res f (x # xs) =
     res_bind (f x) (\<lambda>y. res_bind (map_res f xs) (\<lambda>ys. Inr (y # ys)))"

text \<open>Truth value of an object (\<open>if not x\<close>, \<open>x or y\<close>).\<close>

fun py_truthy :: "pyval \<Rightarrow> bool" where
  "py_truthy PNone = False"
| "py_truthy (PBool b) = b"
| "py_truthy (PInt i) = (i \<noteq> 0)"
| "py_truthy (PStr s) = (s \<noteq> [])"
| "py_truthy (PList xs) = (xs \<noteq> [])"
| "py_truthy (PDict d) = (d \<noteq> [])"

definition py_or :: "pyval \<Rightarrow> pyval \<Rightarrow> pyval" where
  "py_or a b = (if py_truthy a then a else b)"

text \<open>\<open>obj.get(key, default)\<close>: only a dictionary has the method.\<close>

fun py_get :: "pyval \<Rightarrow> string \<Rightarrow> pyval \<Rightarrow> pyval res" where
  "py_get (PDict d) k dflt = Inr (case map_of d k of None \<Rightarrow> dflt | Some v \<Rightarrow> v)"
| "py_get _ k dflt = Inl AttributeError"

text \<open>\<open>obj[key]\<close> with a string key: a missing key raises, and so does any other object.\<close>

fun py_subscript :: "pyval \<Rightarrow> string \<Rightarrow> pyval res" where
  "py_subscript (PDict d) k = (case map_of d k of None \<Rightarrow> Inl KeyError | Some v \<Rightarrow> Inr v)"
| "py_subscript _ k = Inl TypeError"

fun py_is_list :: "pyval \<Rightarrow> bool" where
  "py_is_list (PList xs) = True"
| "py_is_list _ = False"

text \<open>\<open>sep.join(xs)\<close>: every item has to be a string.\<close>

primrec all_strs :: "pyval list \<Rightarrow> string list res" where
  "all_strs [] = Inr []"
| "all_strs (x # xs) =
     (case x of
        PStr s \<Rightarrow> res_bind (all_strs xs) (\<lambda>ss. Inr (s # ss))
      | _ \<Rightarrow> Inl TypeError)"

fun join :: "string \<Rightarrow> string list \<Rightarrow> string" where
  "join sep [] = []"
| "join sep [s] = s"
| "join sep (s # t # ts) = s @ sep @ join sep (t # ts)"

definition py_join :: "string \<Rightarrow> pyval \<Rightarrow> string res" where
  "py_join sep v =
     (case v of
        PList xs \<Rightarrow> res_bind (all_strs xs) (\<lambda>ss. Inr (join sep ss))
      | _ \<Rightarrow> Inl TypeError)"

text \<open>\<open>xs[:limit]\<close>: a negative bound counts from the end.\<close>

definition py_slice_to :: "'a list \<Rightarrow> int \<Rightarrow> 'a list" where
  "py_slice_to xs limit =
     (if 0 \<le> limit then take (nat limit) xs
      else take (length xs - nat (- limit)) xs)"

text \<open>\<open>str(x)\<close>.  The text of a list or of a dictionary is the interpreter's \<open>repr\<close>,
  which is taken as a parameter.\<close>

definition digit_char :: "nat \<Rightarrow> char" where
  "digit_char n = ''0123456789'' ! n"

function show_nat :: "nat \<Rightarrow> string" where
  "show_nat n = (if n < 10 then [digit_char n] else show_nat (n div 10) @ [digit_char (n mod 10)])"
  by pat_completeness auto
termination
  by (relation "measure id") auto

definition show_int :: "int \<Rightarrow> string" where
  "show_int i = (if i < 0 then CHR ''-'' # show_nat (nat (- i)) else show_nat (nat i))"

fun py_str :: "(pyval \<Rightarrow> string) \<Rightarrow> pyval \<Rightarrow> string" where
  "py_str repr PNone = ''None''"
| "py_str repr (PBool b) = (if b then ''True'' else ''False'')"
| "py_str repr (PInt i) = show_int i"
| "py_str repr (PStr s) = s"
| "py_str repr v = repr v"


section \<open>The collaborator and the calls made to it\<close>

text \<open>Keyword arguments of an entity collection's \<open>list\<close>; \<open>None\<close> is an argument not passed.\<close>

record list_args =
  search :: "string option"
  orderBy :: "string option"
  orderMode :: "string option"
  first :: "int option"

datatype call =
    Read string string
  | ReadId string pyval
  | ListEntities string list_args
  | RelationsFrom pyval "string list"
  | RelationsTo pyval "string list"

text \<open>
  The platform client, as the answers it gives: \<open>read_by_name t n\<close> is
  \<open>getattr(_cti_client, t).read(filters=...)\<close> with the filter \<open>name\<close> equals \<open>n\<close>,
  \<open>read_by_id t i\<close> is \<open>getattr(_cti_client, t).read(id=i)\<close>, \<open>list_entities t args\<close> is
  \<open>getattr(_cti_client, t).list(**args)\<close>, \<open>relations_from i ts\<close> is
  \<open>stix_core_relationship.list(fromId=i, toTypes=ts)\<close> and \<open>relations_to i ts\<close> is
  \<open>stix_core_relationship.list(toId=i, fromTypes=ts)\<close>.  The three last fields belong to the
  interpreter and are taken as they are: the order in which a set is iterated, \<open>repr\<close> of a
  list or a dictionary, and the reversed stable sort of values whose keys are all lists
  (\<open>sort_by_list_keys keys xs\<close>, which compares the lists element by element and may raise).
\<close>

record env =
  read_by_name :: "string \<Rightarrow> string \<Rightarrow> pyval"
  read_by_id :: "string \<Rightarrow> pyval \<Rightarrow> pyval"
  list_entities :: "string \<Rightarrow> list_args \<Rightarrow> pyval list"
  relations_from :: "pyval \<Rightarrow> string list \<Rightarrow> pyval list"
  relations_to :: "pyval \<Rightarrow> string list \<Rightarrow> pyval list"
  set_order :: "pyval list \<Rightarrow> pyval list"
  py_repr :: "pyval \<Rightarrow> string"
  sort_by_list_keys :: "pyval list \<Rightarrow> pyval list \<Rightarrow> pyval list res"

text \<open>A tool returns the calls it made, in order, and its result or the error raised.\<close>

type_synonym 'a io = "call list \<times> 'a res"

definition io_return :: "'a \<Rightarrow> 'a io" where
  "io_return x = ([], Inr x)"

definition io_lift :: "'a res \<Rightarrow> 'a io" where
  "io_lift r = ([], r)"

definition io_call :: "call \<Rightarrow> 'a \<Rightarrow> 'a io" where
  "io_call k answer = ([k], Inr answer)"

definition io_bind :: "'a io \<Rightarrow> ('a \<Rightarrow> 'b io) \<Rightarrow> 'b io" where
  "io_bind m f =
     (case m of
        (t, Inl e) \<Rightarrow> (t, Inl e)
      | (t, Inr x) \<Rightarrow> (case f x of (t', r) \<Rightarrow> (t @ t', r)))"


section \<open>Client initialisation\<close>

record client_handle =
  api_url :: string
  api_token :: string

definition create_opencti_client :: "(string \<Rightarrow> string option) \<Rightarrow> client_handle res" where
  "create_opencti_client environ =
     (let api_url = (case environ ''OPENCTI_URL'' of None \<Rightarrow> ''http://localhost:8080'' | Some u \<Rightarrow> u);
          api_token = environ ''OPENCTI_TOKEN''
      in case api_token of
           None \<Rightarrow> Inl (RuntimeError
             ''OPENCTI_TOKEN environment variable must be set to authenticate with OpenCTI'')
         | Some tok \<Rightarrow>
             if tok = [] then Inl (RuntimeError
               ''OPENCTI_TOKEN environment variable must be set to authenticate with OpenCTI'')
             else Inr \<lparr>api_url = api_url, api_token = tok\<rparr>)"


section \<open>Formatting helpers\<close>

definition format_aliases :: "env \<Rightarrow> pyval \<Rightarrow> string res" where
  "format_aliases c alias_list =
     (if \<not> py_truthy alias_list then Inr ''''
      else if py_is_list alias_list then py_join '', '' alias_list
      else Inr (py_str (py_repr c) alias_list))"

definition format_entity_with_aliases :: "env \<Rightarrow> pyval \<Rightarrow> pyval res" where
  "format_entity_with_aliases c entity =
     res_bind (py_get entity ''stix_id'' (PStr '''')) (\<lambda>sid.
     res_bind (py_get entity ''name'' (PStr '''')) (\<lambda>nm.
     res_bind (py_get entity ''aliases'' PNone) (\<lambda>al.
     res_bind (format_aliases c al) (\<lambda>als.
     res_bind (py_get entity ''description'' PNone) (\<lambda>d.
       Inr (PDict [(''stix_id'', sid), (''name'', nm), (''aliases'', PStr als),
                   (''description'', py_or d (PStr ''''))]))))))"

definition format_relationship_target :: "pyval \<Rightarrow> pyval res" where
  "format_relationship_target relationship =
     res_bind (py_get relationship ''to'' (PDict [])) (\<lambda>to_obj.
     res_bind (py_get to_obj ''stix_id'' (PStr '''')) (\<lambda>sid.
     res_bind (py_get to_obj ''name'' (PStr '''')) (\<lambda>nm.
       Inr (PDict [(''stix_id'', sid), (''name'', nm)]))))"


section \<open>Lookup and traversal primitives\<close>

definition find_entity_by_name :: "env \<Rightarrow> string \<Rightarrow> string \<Rightarrow> pyval io" where
  "find_entity_by_name c entity_type entity_name =
     io_call (Read entity_type entity_name) (read_by_name c entity_type entity_name)"

definition get_related_entities :: "env \<Rightarrow> pyval \<Rightarrow> string list \<Rightarrow> pyval list io" where
  "get_related_entities c from_entity_id to_types =
     io_bind (io_call (RelationsFrom from_entity_id to_types)
                (relations_from c from_entity_id to_types)) (\<lambda>relations.
       io_lift (map_res format_relationship_target relations))"

definition get_reverse_related_entities :: "env \<Rightarrow> pyval \<Rightarrow> string list \<Rightarrow> pyval list io" where
  "get_reverse_related_entities c to_entity_id from_types =
     io_bind (io_call (RelationsTo to_entity_id from_types)
                (relations_to c to_entity_id from_types)) (\<lambda>relations.
       io_lift (map_res (\<lambda>rel.
         res_bind (py_get rel ''from'' (PDict [])) (\<lambda>from_obj.
         res_bind (py_get from_obj ''stix_id'' (PStr '''')) (\<lambda>sid.
         res_bind (py_get from_obj ''name'' (PStr '''')) (\<lambda>nm.
           Inr (PDict [(''stix_id'', sid), (''name'', nm)]))))) relations))"


section \<open>Relationship tools\<close>

text \<open>
  The tools that look an entity up by name and traverse from it are written out one by
  one in the source, each with its own \<open>if ... is None: return []\<close>.
\<close>

definition get_malwares_of_intrusion_set :: "env \<Rightarrow> string \<Rightarrow> pyval list io" where
  "get_malwares_of_intrusion_set c intrusion_set_name =
     io_bind (find_entity_by_name c ''intrusion_set'' intrusion_set_name) (\<lambda>intrusion_set.
       if intrusion_set = PNone then io_return []
       else io_bind (io_lift (py_subscript intrusion_set ''id'')) (\<lambda>i.
              get_related_entities c i [''Malware'']))"

definition get_attack_patterns_of_intrusion_set :: "env \<Rightarrow> string \<Rightarrow> pyval list io" where
  "get_attack_patterns_of_intrusion_set c intrusion_set_name =
     io_bind (find_entity_by_name c ''intrusion_set'' intrusion_set_name) (\<lambda>intrusion_set.
       if intrusion_set = PNone then io_return []
       else io_bind (io_lift (py_subscript intrusion_set ''id'')) (\<lambda>i.
              get_related_entities c i [''Attack-Pattern'']))"

definition get_vulnerabilities_of_malware :: "env \<Rightarrow> string \<Rightarrow> pyval list io" where
  "get_vulnerabilities_of_malware c malware_name =
     io_bind (find_entity_by_name c ''malware'' malware_name) (\<lambda>malware.
       if malware = PNone then io_return []
       else io_bind (io_lift (py_subscript malware ''id'')) (\<lambda>i.
              get_related_entities c i [''Vulnerability'']))"

definition get_tools_used_by_intrusion_set :: "env \<Rightarrow> string \<Rightarrow> pyval list io" where
  "get_tools_used_by_intrusion_set c intrusion_set_name =
     io_bind (find_entity_by_name c ''intrusion_set'' intrusion_set_name) (\<lambda>intrusion_set.
       if intrusion_set = PNone then io_return []
       else io_bind (io_lift (py_subscript intrusion_set ''id'')) (\<lambda>i.
              get_related_entities c i [''Tool'']))"

definition get_malwares_of_report :: "env \<Rightarrow> string \<Rightarrow> pyval list io" where
  "get_malwares_of_report c report_title =
     io_bind (find_entity_by_name c ''report'' report_title) (\<lambda>report.
       if report = PNone then io_return []
       else io_bind (io_lift (py_subscript report ''id'')) (\<lambda>i.
              get_related_entities c i [''Malware'']))"

definition get_intrusion_sets_of_report :: "env \<Rightarrow> string \<Rightarrow> pyval list io" where
  "get_intrusion_sets_of_report c report_title =
     io_bind (find_entity_by_name c ''report'' report_title) (\<lambda>report.
       if report = PNone then io_return []
       else io_bind (io_lift (py_subscript report ''id'')) (\<lambda>i.
              get_related_entities c i [''Intrusion-Set'']))"

definition get_ttps_of_threat_actor :: "env \<Rightarrow> string \<Rightarrow> pyval list io" where
  "get_ttps_of_threat_actor c threat_actor_name =
     io_bind (find_entity_by_name c ''threat_actor'' threat_actor_name) (\<lambda>threat_actor.
       if threat_actor = PNone then io_return []
       else io_bind (io_lift (py_subscript threat_actor ''id'')) (\<lambda>i.
              get_related_entities c i [''Attack-Pattern'']))"

definition get_ttps_of_intrusion_set :: "env \<Rightarrow> string \<Rightarrow> pyval list io" where
  "get_ttps_of_intrusion_set c intrusion_set_name =
     get_attack_patterns_of_intrusion_set c intrusion_set_name"

definition get_malwares_used_by_threat_actor :: "env \<Rightarrow> string \<Rightarrow> pyval list io" where
  "get_malwares_used_by_threat_actor c threat_actor_name =
     io_bind (find_entity_by_name c ''threat_actor'' threat_actor_name) (\<lambda>threat_actor.
       if threat_actor = PNone then io_return []
       else io_bind (io_lift (py_subscript threat_actor ''id'')) (\<lambda>i.
              get_related_entities c i [''Malware'']))"

definition get_campaigns_by_threat_actor :: "env \<Rightarrow> string \<Rightarrow> pyval list io" where
  "get_campaigns_by_threat_actor c threat_actor_name =
     io_bind (find_entity_by_name c ''threat_actor'' threat_actor_name) (\<lambda>threat_actor.
       if threat_actor = PNone then io_return []
       else io_bind (io_lift (py_subscript threat_actor ''id'')) (\<lambda>i.
              get_related_entities c i [''Campaign'']))"

definition get_vulnerabilities_exploited_by_threat_actor :: "env \<Rightarrow> string \<Rightarrow> pyval list io" where
  "get_vulnerabilities_exploited_by_threat_actor c threat_actor_name =
     io_bind (find_entity_by_name c ''threat_actor'' threat_actor_name) (\<lambda>threat_actor.
       if threat_actor = PNone then io_return []
       else io_bind (io_lift (py_subscript threat_actor ''id'')) (\<lambda>i.
              get_related_entities c i [''Vulnerability'']))"


section \<open>Sector tools\<close>

definition get_threat_actors_targeting_sector :: "env \<Rightarrow> string \<Rightarrow> int \<Rightarrow> pyval list io" where
  "get_threat_actors_targeting_sector c sector_name limit =
     (let traverse = (\<lambda>sector.
            io_bind (io_lift (py_subscript sector ''id'')) (\<lambda>i.
            io_bind (get_reverse_related_entities c i [''Threat-Actor'']) (\<lambda>found.
              io_return (py_slice_to found limit))));
          args = \<lparr>search = Some sector_name, orderBy = None, orderMode = None, first = Some 1\<rparr>
      in io_bind (io_call (Read ''identity'' sector_name)
                    (read_by_name c ''identity'' sector_name)) (\<lambda>sector.
           if sector = PNone then
             io_bind (io_call (ListEntities ''identity'' args)
                        (list_entities c ''identity'' args)) (\<lambda>sectors.
               if sectors = [] then io_return [] else traverse (hd sectors))
           else traverse sector))"

definition get_intrusion_sets_targeting_sector :: "env \<Rightarrow> string \<Rightarrow> int \<Rightarrow> pyval list io" where
  "get_intrusion_sets_targeting_sector c sector_name limit =
     (let traverse = (\<lambda>sector.
            io_bind (io_lift (py_subscript sector ''id'')) (\<lambda>i.
            io_bind (get_reverse_related_entities c i [''Intrusion-Set'']) (\<lambda>found.
              io_return (py_slice_to found limit))));
          args = \<lparr>search = Some sector_name, orderBy = None, orderMode = None, first = Some 1\<rparr>
      in io_bind (io_call (Read ''identity'' sector_name)
                    (read_by_name c ''identity'' sector_name)) (\<lambda>sector.
           if sector = PNone then
             io_bind (io_call (ListEntities ''identity'' args)
                        (list_entities c ''identity'' args)) (\<lambda>sectors.
               if sectors = [] then io_return [] else traverse (hd sectors))
           else traverse sector))"


section \<open>Report tools\<close>

text \<open>
  The loop body that turns a report into its output record.  The source repeats it in
  \<open>get_latest_reports_by_sector\<close>, \<open>get_latest_reports_mentioning_threat_actor\<close> and
  \<open>get_latest_reports\<close>; \<open>search_reports\<close> has one more assignment to \<open>labels\<close>
  (from \<open>objectMarking\<close>), overwritten by the next statement.
\<close>

definition report_row :: "env \<Rightarrow> pyval \<Rightarrow> pyval res" where
  "report_row c report =
     res_bind (py_get report ''published'' PNone) (\<lambda>p.
     res_bind (py_get report ''labels'' PNone) (\<lambda>l.
     res_bind (let labels = py_or l (PList []) in
               if py_is_list labels then py_join '', '' labels
               else Inr (py_str (py_repr c) labels)) (\<lambda>labels_str.
     res_bind (py_get report ''stix_id'' (PStr '''')) (\<lambda>sid.
     res_bind (py_get report ''name'' (PStr '''')) (\<lambda>nm.
     res_bind (py_get report ''description'' PNone) (\<lambda>d.
       Inr (PDict [(''stix_id'', sid), (''name'', nm),
                   (''published'', py_or p (PStr '''')),
                   (''labels'', PStr labels_str),
                   (''description'', py_or d (PStr ''''))])))))))"

definition search_reports :: "env \<Rightarrow> string \<Rightarrow> pyval list io" where
  "search_reports c search_term =
     (let args = \<lparr>search = Some search_term, orderBy = None, orderMode = None, first = None\<rparr>
      in io_bind (io_call (ListEntities ''report'' args) (list_entities c ''report'' args))
           (\<lambda>reports.
             io_lift (map_res (\<lambda>report.
               res_bind (py_get report ''published'' PNone) (\<lambda>p.
               res_bind (py_get report ''objectMarking'' (PList [])) (\<lambda>unused.
               res_bind (py_get report ''labels'' PNone) (\<lambda>l.
               res_bind (let labels = py_or l (PList []) in
                         if py_is_list labels then py_join '', '' labels
                         else Inr (py_str (py_repr c) labels)) (\<lambda>labels_str.
               res_bind (py_get report ''stix_id'' (PStr '''')) (\<lambda>sid.
               res_bind (py_get report ''name'' (PStr '''')) (\<lambda>nm.
               res_bind (py_get report ''description'' PNone) (\<lambda>d.
                 Inr (PDict [(''stix_id'', sid), (''name'', nm),
                             (''published'', py_or p (PStr '''')),
                             (''labels'', PStr labels_str),
                             (''description'', py_or d (PStr ''''))]))))))))) reports)))"

definition get_report_details :: "env \<Rightarrow> string \<Rightarrow> pyval io" where
  "get_report_details c report_title =
     io_bind (find_entity_by_name c ''report'' report_title) (\<lambda>report.
       if report = PNone then
         io_return (PDict [(''stix_id'', PStr ''''), (''name'', PStr ''''),
                           (''published'', PStr ''''), (''labels'', PStr ''''),
                           (''description'', PStr '''')])
       else io_lift (
         res_bind (py_get report ''labels'' PNone) (\<lambda>l.
         res_bind (let labels = py_or l (PList []) in
                   if py_is_list labels then py_join '', '' labels
                   else Inr (py_str (py_repr c) labels)) (\<lambda>labels_str.
         res_bind (py_get report ''stix_id'' (PStr '''')) (\<lambda>sid.
         res_bind (py_get report ''name'' (PStr '''')) (\<lambda>nm.
         res_bind (py_get report ''published'' (PStr '''')) (\<lambda>p.
         res_bind (py_get report ''description'' PNone) (\<lambda>d.
           Inr (PDict [(''stix_id'', sid), (''name'', nm), (''published'', p),
                       (''labels'', PStr labels_str),
                       (''description'', py_or d (PStr ''''))])))))))))"

definition get_latest_reports_by_sector :: "env \<Rightarrow> string \<Rightarrow> int \<Rightarrow> pyval list io" where
  "get_latest_reports_by_sector c sector_name limit =
     (let args = \<lparr>search = Some sector_name, orderBy = Some ''published'',
                  orderMode = Some ''desc'', first = Some limit\<rparr>
      in io_bind (io_call (ListEntities ''report'' args) (list_entities c ''report'' args))
           (\<lambda>reports. io_lift (map_res (report_row c) reports)))"

definition get_latest_reports :: "env \<Rightarrow> int \<Rightarrow> pyval list io" where
  "get_latest_reports c limit =
     (let args = \<lparr>search = None, orderBy = Some ''published'',
                  orderMode = Some ''desc'', first = Some limit\<rparr>
      in io_bind (io_call (ListEntities ''report'' args) (list_entities c ''report'' args))
           (\<lambda>reports. io_lift (map_res (report_row c) reports)))"


section \<open>Reports mentioning a threat actor\<close>

text \<open>The two loops that collect report identifiers, from the endpoint \<open>key\<close> of each
  relationship, appending to \<open>report_ids\<close>.\<close>

primrec collect_ids :: "string \<Rightarrow> pyval list \<Rightarrow> pyval list \<Rightarrow> pyval list res" where
  "collect_ids key [] report_ids = Inr report_ids"
| "collect_ids key (rel # rels) report_ids =
     res_bind (py_get rel key (PDict [])) (\<lambda>obj.
     res_bind (py_get obj ''id'' PNone) (\<lambda>i.
       if py_truthy i then
         res_bind (py_subscript obj ''id'') (\<lambda>j. collect_ids key rels (report_ids @ [j]))
       else collect_ids key rels report_ids))"

text \<open>
  \<open>set(report_ids)\<close>: a list or a dictionary is not hashable; \<open>True\<close> and \<open>1\<close> are the
  same element.  The elements are kept in the order of their first insertion and then
  handed to \<open>set_order\<close>, the order in which the interpreter iterates the set.
\<close>

fun py_hashable :: "pyval \<Rightarrow> bool" where
  "py_hashable (PList xs) = False"
| "py_hashable (PDict d) = False"
| "py_hashable _ = True"

fun py_hash_norm :: "pyval \<Rightarrow> pyval" where
  "py_hash_norm (PBool b) = PInt (if b then 1 else 0)"
| "py_hash_norm v = v"

definition py_set_add :: "pyval list \<Rightarrow> pyval \<Rightarrow> pyval list" where
  "py_set_add s x = (if py_hash_norm x \<in> set (map py_hash_norm s) then s else s @ [x])"

definition py_set :: "env \<Rightarrow> pyval list \<Rightarrow> pyval list res" where
  "py_set c xs =
     (if list_all py_hashable xs then Inr (set_order c (foldl py_set_add [] xs))
      else Inl TypeError)"

text \<open>The loop that fetches each report again and keeps the ones found.\<close>

fun fetch_reports :: "env \<Rightarrow> pyval list \<Rightarrow> pyval list \<Rightarrow> pyval list io" where
  "fetch_reports c [] reports = io_return reports"
| "fetch_reports c (report_id # ids) reports =
     io_bind (io_call (ReadId ''report'' report_id) (read_by_id c ''report'' report_id))
       (\<lambda>report. fetch_reports c ids (if py_truthy report then reports @ [report] else reports))"

text \<open>
  \<open>xs.sort(key=key, reverse=True)\<close>: the keys are computed first, the sort is stable
  (equal keys keep their order, also when reversed), and it raises when it has to compare
  keys that have no order.  A list of at most one element is never compared.  Strings are
  compared with strings and numbers with numbers.  Keys that are all lists are compared
  element by element, which is left to the interpreter (\<open>sort_by_list_keys\<close>).  In every
  other case two of the keys have no order (\<open>None\<close> and a dictionary have none with
  anything, and a string, a number and a list have none with each other), and since a
  sort that ends has compared every element with another one, it raises \<open>TypeError\<close>.
\<close>

fun py_is_str :: "pyval \<Rightarrow> bool" where
  "py_is_str (PStr s) = True"
| "py_is_str _ = False"

fun py_is_num :: "pyval \<Rightarrow> bool" where
  "py_is_num (PInt i) = True"
| "py_is_num (PBool b) = True"
| "py_is_num _ = False"

fun str_of :: "pyval \<Rightarrow> string" where
  "str_of (PStr s) = s"
| "str_of _ = []"

fun int_of :: "pyval \<Rightarrow> int" where
  "int_of (PInt i) = i"
| "int_of (PBool b) = (if b then 1 else 0)"
| "int_of _ = 0"

definition sort_reverse :: "('a \<Rightarrow> 'k::linorder) \<Rightarrow> 'a list \<Rightarrow> 'a list" where
  "sort_reverse f xs = rev (sort_key f (rev xs))"

definition py_sort_reverse ::
    "env \<Rightarrow> (pyval \<Rightarrow> pyval res) \<Rightarrow> pyval list \<Rightarrow> pyval list res" where
  "py_sort_reverse c key xs =
     res_bind (map_res key xs) (\<lambda>keys.
       if length xs \<le> 1 then Inr xs
       else if list_all py_is_str keys then
         Inr (map snd (sort_reverse (\<lambda>kx. str_of (fst kx)) (zip keys xs)))
       else if list_all py_is_num keys then
         Inr (map snd (sort_reverse (\<lambda>kx. int_of (fst kx)) (zip keys xs)))
       else if list_all py_is_list keys then sort_by_list_keys c keys xs
       else Inl TypeError)"

definition published_key :: "pyval \<Rightarrow> pyval res" where
  "published_key r = res_bind (py_get r ''published'' PNone) (\<lambda>p. Inr (py_or p (PStr '''')))"

text \<open>The branch of \<open>get_latest_reports_mentioning_threat_actor\<close> taken when the actor
  is resolved: both directions are traversed, the identifiers merged, each report fetched
  again, and the reports sorted and cut to \<open>limit\<close>.\<close>

definition reports_via_relationships :: "env \<Rightarrow> pyval \<Rightarrow> int \<Rightarrow> pyval list io" where
  "reports_via_relationships c threat_actor limit =
     io_bind (io_lift (py_subscript threat_actor ''id'')) (\<lambda>actor_id.
     io_bind (io_call (RelationsFrom actor_id [''Report''])
                (relations_from c actor_id [''Report''])) (\<lambda>relations.
     io_bind (io_call (RelationsTo actor_id [''Report''])
                (relations_to c actor_id [''Report''])) (\<lambda>reverse_relations.
     io_bind (io_lift (collect_ids ''to'' relations [])) (\<lambda>forward_ids.
     io_bind (io_lift (collect_ids ''from'' reverse_relations forward_ids)) (\<lambda>report_ids.
     io_bind (io_lift (py_set c report_ids)) (\<lambda>distinct_ids.
     io_bind (fetch_reports c distinct_ids []) (\<lambda>reports.
     io_bind (io_lift (py_sort_reverse c published_key reports)) (\<lambda>sorted_reports.
       io_return (py_slice_to sorted_reports limit)))))))))"

definition get_latest_reports_mentioning_threat_actor ::
    "env \<Rightarrow> string \<Rightarrow> int \<Rightarrow> pyval list io" where
  "get_latest_reports_mentioning_threat_actor c threat_actor_name limit =
     (let args = \<lparr>search = Some threat_actor_name, orderBy = Some ''published'',
                  orderMode = Some ''desc'', first = Some limit\<rparr>
      in io_bind
           (io_bind (find_entity_by_name c ''threat_actor'' threat_actor_name) (\<lambda>threat_actor.
              if threat_actor = PNone then
                io_call (ListEntities ''report'' args) (list_entities c ''report'' args)
              else reports_via_relationships c threat_actor limit))
           (\<lambda>reports. io_lift (map_res (report_row c) reports)))"


section \<open>Well-formed records and what the tools are expected to return\<close>

text \<open>
  The shapes of the platform's records that the statements below speak about, and the
  projections the specification describes.  A relationship is a dictionary whose endpoint
  (\<open>to\<close> or \<open>from\<close>), when present, is a dictionary.
\<close>

fun py_is_dict :: "pyval \<Rightarrow> bool" where
  "py_is_dict (PDict d) = True"
| "py_is_dict _ = False"

definition is_relationship :: "string \<Rightarrow> pyval \<Rightarrow> bool" where
  "is_relationship key r =
     (case r of
        PDict d \<Rightarrow> (case map_of d key of None \<Rightarrow> True | Some e \<Rightarrow> py_is_dict e)
      | _ \<Rightarrow> False)"

definition endpoint :: "string \<Rightarrow> pyval \<Rightarrow> (string \<times> pyval) list" where
  "endpoint key r =
     (case r of
        PDict d \<Rightarrow> (case map_of d key of Some (PDict e) \<Rightarrow> e | _ \<Rightarrow> [])
      | _ \<Rightarrow> [])"

definition field_or_empty :: "(string \<times> pyval) list \<Rightarrow> string \<Rightarrow> pyval" where
  "field_or_empty d k = (case map_of d k of None \<Rightarrow> PStr [] | Some v \<Rightarrow> v)"

definition projected :: "string \<Rightarrow> pyval \<Rightarrow> pyval" where
  "projected key r =
     PDict [(''stix_id'', field_or_empty (endpoint key r) ''stix_id''),
            (''name'', field_or_empty (endpoint key r) ''name'')]"

text \<open>The sector a name resolves to: the exact match, else the first hit of the search
  capped at one result, else none.\<close>

definition sector_search_args :: "string \<Rightarrow> list_args" where
  "sector_search_args sector_name =
     \<lparr>search = Some sector_name, orderBy = None, orderMode = None, first = Some 1\<rparr>"

definition resolve_sector :: "env \<Rightarrow> string \<Rightarrow> pyval option" where
  "resolve_sector c sector_name =
     (if read_by_name c ''identity'' sector_name \<noteq> PNone
      then Some (read_by_name c ''identity'' sector_name)
      else (case list_entities c ''identity'' (sector_search_args sector_name) of
              [] \<Rightarrow> None
            | s # rest \<Rightarrow> Some s))"

text \<open>A report whose labels can be formatted: absent, empty, a list of strings, or not a
  list at all; and a report whose publication date is absent, \<open>None\<close> or a string.\<close>

definition labels_ok :: "pyval \<Rightarrow> bool" where
  "labels_ok r =
     (case r of
        PDict d \<Rightarrow>
          (case map_of d ''labels'' of
             Some (PList xs) \<Rightarrow> list_all py_is_str xs
           | _ \<Rightarrow> True)
      | _ \<Rightarrow> False)"

definition published_ok :: "pyval \<Rightarrow> bool" where
  "published_ok r =
     (case r of
        PDict d \<Rightarrow>
          (case map_of d ''published'' of
             None \<Rightarrow> True | Some PNone \<Rightarrow> True | Some (PStr s) \<Rightarrow> True | Some v \<Rightarrow> False)
      | _ \<Rightarrow> False)"

text \<open>The publication date as the string the sort compares: empty when missing.\<close>

definition published_string :: "pyval \<Rightarrow> string" where
  "published_string r =
     (case r of
        PDict d \<Rightarrow> (case map_of d ''published'' of Some (PStr s) \<Rightarrow> s | _ \<Rightarrow> [])
      | _ \<Rightarrow> [])"

text \<open>The report identifiers a list of relationships contributes: the \<open>id\<close> of each
  endpoint that has a true one.\<close>

definition ids_of :: "string \<Rightarrow> pyval list \<Rightarrow> pyval list" where
  "ids_of key rels =
     filter py_truthy (map (\<lambda>r. case map_of (endpoint key r) ''id'' of
                                   None \<Rightarrow> PNone | Some v \<Rightarrow> v) rels)"

text \<open>The \<open>published\<close> field of row number \<open>k\<close> of a tool's result, when there is one.\<close>

definition row_published_at :: "pyval list res \<Rightarrow> nat \<Rightarrow> pyval option" where
  "row_published_at result k =
     (case result of
        Inl e \<Rightarrow> None
      | Inr rows \<Rightarrow>
          if k < length rows
          then (case rows ! k of PDict row \<Rightarrow> map_of row ''published'' | _ \<Rightarrow> None)
          else None)"

fun is_read_id :: "call \<Rightarrow> bool" where
  "is_read_id (ReadId t i) = True"
| "is_read_id _ = False"


text \<open>For an actor with internal identifier \<open>a\<close>: the report identifiers of both
  directions, forward first; the distinct ones in the order they are fetched; and the
  reports that the fetches find.\<close>

definition merged_ids :: "env \<Rightarrow> pyval \<Rightarrow> pyval list" where
  "merged_ids c a =
     ids_of ''to'' (relations_from c a [''Report'']) @
     ids_of ''from'' (relations_to c a [''Report''])"

definition fetched_ids :: "env \<Rightarrow> pyval \<Rightarrow> pyval list" where
  "fetched_ids c a = set_order c (foldl py_set_add [] (merged_ids c a))"

definition found_reports :: "env \<Rightarrow> pyval \<Rightarrow> pyval list" where
  "found_reports c a = filter py_truthy (map (read_by_id c ''report'') (fetched_ids c a))"


section \<open>Example platforms\<close>

definition empty_platform :: env where
  "empty_platform =
     \<lparr>read_by_name = (\<lambda>t n. PNone), read_by_id = (\<lambda>t i. PNone),
      list_entities = (\<lambda>t a. []), relations_from = (\<lambda>i ts. []),
      relations_to = (\<lambda>i ts. []), set_order = (\<lambda>xs. xs), py_repr = (\<lambda>v. []),
      sort_by_list_keys = (\<lambda>ks xs. Inl TypeError)\<rparr>"

definition report_1 :: pyval where
  "report_1 = PDict [(''stix_id'', PStr ''report--111''), (''name'', PStr ''APT28 Analysis''),
                     (''published'', PStr ''2024-12-01''), (''labels'', PList [PStr ''apt'']),
                     (''description'', PStr ''APT28 report'')]"

definition report_2 :: pyval where
  "report_2 = PDict [(''stix_id'', PStr ''report--222''), (''name'', PStr ''Undated''),
                     (''published'', PNone), (''labels'', PNone), (''description'', PNone)]"

definition report_3 :: pyval where
  "report_3 = PDict [(''stix_id'', PStr ''report--333''), (''name'', PStr ''Older''),
                     (''published'', PStr ''2024-11-01''), (''labels'', PList []),
                     (''description'', PStr ''Older report'')]"

definition demo_platform :: env where
  "demo_platform =
     \<lparr>read_by_name = (\<lambda>t n.
        if t = ''intrusion_set'' \<and> n = ''APT28'' then
          PDict [(''id'', PStr ''123''), (''name'', PStr ''APT28'')]
        else if t = ''identity'' \<and> n = ''Financial'' then
          PDict [(''id'', PStr ''s1''), (''name'', PStr ''Financial'')]
        else if t = ''threat_actor'' \<and> n = ''APT28'' then
          PDict [(''id'', PStr ''a1''), (''name'', PStr ''APT28'')]
        else if t = ''threat_actor'' \<and> n = ''Lazarus'' then
          PDict [(''id'', PStr ''a2''), (''name'', PStr ''Lazarus'')]
        else if t = ''report'' \<and> n = ''Undated'' then report_2
        else PNone),
      read_by_id = (\<lambda>t i.
        if t = ''report'' \<and> i = PStr ''r1'' then report_1
        else if t = ''report'' \<and> i = PStr ''r2'' then report_2
        else if t = ''report'' \<and> i = PStr ''r3'' then report_3
        else PNone),
      list_entities = (\<lambda>t a.
        if t = ''identity'' \<and> search a = Some ''finance'' then
          [PDict [(''id'', PStr ''s1''), (''name'', PStr ''Financial'')]]
        else if t = ''report'' \<and> search a = Some ''UnknownActor'' then [report_3]
        else if t = ''report'' \<and> search a = Some ''Undated'' then [report_1, report_2]
        else if t = ''report'' \<and> search a = None then [report_1, report_3, report_2]
        else []),
      relations_from = (\<lambda>i ts.
        if i = PStr ''123'' \<and> ts = [''Malware''] then
          [PDict [(''to'', PDict [(''stix_id'', PStr ''malware--111''), (''name'', PStr ''X-Agent'')])],
           PDict [(''to'', PDict [(''stix_id'', PStr ''malware--222'')])],
           PDict []]
        else if i = PStr ''a1'' \<and> ts = [''Report''] then
          [PDict [(''to'', PDict [(''id'', PStr ''r1'')])],
           PDict [(''to'', PDict [(''id'', PStr ''r2'')])]]
        else if i = PStr ''a2'' \<and> ts = [''Report''] then
          [PDict [(''to'', PDict [(''id'', PStr ''r1'')])],
           PDict [(''to'', PDict [(''id'', PStr ''r3'')])]]
        else []),
      relations_to = (\<lambda>i ts.
        if i = PStr ''s1'' \<and> ts = [''Threat-Actor''] then
          [PDict [(''from'', PDict [(''stix_id'', PStr ''threat-actor--0''), (''name'', PStr ''Actor0'')])],
           PDict [(''from'', PDict [(''stix_id'', PStr ''threat-actor--1''), (''name'', PStr ''Actor1'')])],
           PDict [(''from'', PDict [(''stix_id'', PStr ''threat-actor--2''), (''name'', PStr ''Actor2'')])]]
        else if i = PStr ''a1'' \<and> ts = [''Report''] then
          [PDict [(''from'', PDict [(''id'', PStr ''r1'')])],
           PDict [(''from'', PDict [(''id'', PStr ''r3'')])],
           PDict [(''from'', PDict [(''id'', PStr ''r4'')])]]
        else if i = PStr ''a2'' \<and> ts = [''Report''] then
          [PDict [(''from'', PDict [(''id'', PStr ''r1'')])]]
        else []),
      set_order = rev,
      py_repr = (\<lambda>v. []),
      sort_by_list_keys = (\<lambda>ks xs. Inl TypeError)\<rparr>"

text \<open>A platform whose relationships have an endpoint that is present and \<open>None\<close>.\<close>

definition null_endpoint_platform :: env where
  "null_endpoint_platform =
     \<lparr>read_by_name = (\<lambda>t n. PNone), read_by_id = (\<lambda>t i. PNone),
      list_entities = (\<lambda>t a. []),
      relations_from = (\<lambda>i ts. [PDict [(''to'', PNone)]]),
      relations_to = (\<lambda>i ts. [PDict [(''from'', PNone)]]),
      set_order = (\<lambda>xs. xs), py_repr = (\<lambda>v. []),
      sort_by_list_keys = (\<lambda>ks xs. Inl TypeError)\<rparr>"


section \<open>Basic facts about the call log and about loops that may raise\<close>

lemma io_bind_call: "io_bind (io_call k v) f = (k # fst (f v), snd (f v))"
  by (simp add: io_bind_def io_call_def split: prod.splits)

lemma io_bind_return: "io_bind (io_return x) f = f x"
  by (simp add: io_bind_def io_return_def split: prod.splits)

lemma io_bind_lift_Inr: "io_bind (io_lift (Inr x)) f = f x"
  by (simp add: io_bind_def io_lift_def split: prod.splits)

lemma io_bind_lift_Inl: "io_bind (io_lift (Inl e)) f = ([], Inl e)"
  by (simp add: io_bind_def io_lift_def)

lemma io_bind_pair_Inr: "io_bind (t, Inr x) f = (t @ fst (f x), snd (f x))"
  by (simp add: io_bind_def split: prod.splits)

lemma io_bind_pair_Inl: "io_bind (t, Inl e) f = (t, Inl e)"
  by (simp add: io_bind_def)

lemmas io_simps = io_bind_call io_bind_return io_bind_lift_Inr io_bind_lift_Inl
  io_bind_pair_Inr io_bind_pair_Inl

lemma fst_io_bind:
  "fst (io_bind m f) = fst m @ (case snd m of Inl e \<Rightarrow> [] | Inr x \<Rightarrow> fst (f x))"
  by (cases m) (simp add: io_bind_def split: sum.splits prod.splits)

lemma snd_io_bind:
  "snd (io_bind m f) = (case snd m of Inl e \<Rightarrow> Inl e | Inr x \<Rightarrow> snd (f x))"
  by (cases m) (simp add: io_bind_def split: sum.splits prod.splits)

lemma map_res_Inr: "(\<And>x. x \<in> set xs \<Longrightarrow> f x = Inr (g x)) \<Longrightarrow> map_res f xs = Inr (map g xs)"
  by (induction xs) (simp_all add: res_bind_def)

lemma map_res_defined:
  "(\<And>x. x \<in> set xs \<Longrightarrow> \<exists>y. f x = Inr y) \<Longrightarrow> \<exists>ys. map_res f xs = Inr ys \<and> length ys = length xs"
proof (induction xs)
  case Nil
  then show ?case by simp
next
  case (Cons x xs)
  then obtain y ys where "f x = Inr y" "map_res f xs = Inr ys" "length ys = length xs"
    by (metis list.set_intros(1) list.set_intros(2))
  then show ?case by (simp add: res_bind_def)
qed

lemma all_strs_map_PStr: "all_strs (map PStr ss) = Inr ss"
  by (induction ss) (simp_all add: res_bind_def)

lemma all_strs_list_all: "list_all py_is_str xs \<Longrightarrow> \<exists>ss. all_strs xs = Inr ss"
proof (induction xs)
  case Nil
  then show ?case by simp
next
  case (Cons x xs)
  then obtain ss where "all_strs xs = Inr ss" by auto
  moreover from Cons.prems obtain s where "x = PStr s" by (cases x) auto
  ultimately show ?case by (simp add: res_bind_def)
qed


section \<open>The alias formatter\<close>

text \<open>
  C5, as the code has it.  \<open>_format_aliases\<close> maps \<open>None\<close>, an empty list and an absent
  \<open>aliases\<close> field to the empty string, and a non-empty list of strings to its elements
  joined by a comma and a space, in their order.  A value that is not a list is mapped to
  its \<open>str\<close> only when it is true; every false value (\<open>0\<close>, \<open>False\<close>, the empty string)
  is mapped to the empty string by the first test of the function.
\<close>

theorem format_aliases_cases:
  "format_aliases c PNone = Inr '''' \<and>
   format_aliases c (PList []) = Inr '''' \<and>
   (map_of d ''aliases'' = None \<longrightarrow>
      res_bind (py_get (PDict d) ''aliases'' PNone) (format_aliases c) = Inr '''') \<and>
   (ss \<noteq> [] \<longrightarrow> format_aliases c (PList (map PStr ss)) = Inr (join '', '' ss)) \<and>
   (\<not> py_is_list v \<and> py_truthy v \<longrightarrow> format_aliases c v = Inr (py_str (py_repr c) v)) \<and>
   (\<not> py_truthy v \<longrightarrow> format_aliases c v = Inr '''')"
  by (simp add: format_aliases_def py_join_def res_bind_def all_strs_map_PStr)

theorem format_aliases_cases_witness:
  "format_aliases empty_platform (PList [PStr ''alias1'', PStr ''alias2'', PStr ''alias3''])
     = Inr ''alias1, alias2, alias3'' \<and>
   format_aliases empty_platform (PStr ''single_alias'') = Inr ''single_alias'' \<and>
   format_aliases empty_platform (PInt 42) = Inr ''42'' \<and>
   format_aliases empty_platform (PBool False) = Inr '''' \<and>
   res_bind (py_get (PDict [(''name'', PStr ''TestEntity'')]) ''aliases'' PNone)
     (format_aliases empty_platform) = Inr ''''"
  using format_aliases_cases [of empty_platform "[(''name'', PStr ''TestEntity'')]"
          "[''alias1'', ''alias2'', ''alias3'']" "PStr ''single_alias''"]
        format_aliases_cases [of empty_platform "[]" "[]" "PInt 42"]
        format_aliases_cases [of empty_platform "[]" "[]" "PBool False"]
  by (simp add: show_int_def digit_char_def)

text \<open>The integer \<open>0\<close> is a scalar that is not a list; its \<open>str\<close> is \<open>0\<close>, and the
  formatter returns the empty string for it.\<close>

theorem format_aliases_scalar_counterexample:
  "format_aliases empty_platform (PInt 0) = Inr '''' \<and>
   py_str (py_repr empty_platform) (PInt 0) = ''0''"
  by (simp add: format_aliases_def show_int_def digit_char_def)


section \<open>Client initialisation\<close>

text \<open>
  C7, as the code has it.  \<open>_create_opencti_client\<close> fails exactly when
  \<open>OPENCTI_TOKEN\<close> is absent or is the empty string, and the error is then the
  \<open>RuntimeError\<close> that names the variable.  Otherwise it returns the client built from
  the token and from \<open>OPENCTI_URL\<close>, with \<open>http://localhost:8080\<close> when \<open>OPENCTI_URL\<close> is
  unset.
\<close>

theorem create_opencti_client_cases:
  "((\<exists>e. create_opencti_client environ = Inl e) \<longleftrightarrow>
      (environ ''OPENCTI_TOKEN'' = None \<or> environ ''OPENCTI_TOKEN'' = Some [])) \<and>
   (\<forall>e. create_opencti_client environ = Inl e \<longrightarrow>
      e = RuntimeError ''OPENCTI_TOKEN environment variable must be set to authenticate with OpenCTI'') \<and>
   (\<forall>tok. environ ''OPENCTI_TOKEN'' = Some tok \<and> tok \<noteq> [] \<longrightarrow>
      create_opencti_client environ =
        Inr \<lparr>api_url = (case environ ''OPENCTI_URL'' of
                          None \<Rightarrow> ''http://localhost:8080'' | Some u \<Rightarrow> u),
             api_token = tok\<rparr>)"
  by (auto simp: create_opencti_client_def split: option.splits)

theorem create_opencti_client_cases_witness:
  "create_opencti_client [''OPENCTI_TOKEN'' \<mapsto> ''test-token''] =
     Inr \<lparr>api_url = ''http://localhost:8080'', api_token = ''test-token''\<rparr> \<and>
   create_opencti_client [''OPENCTI_TOKEN'' \<mapsto> ''test-token'', ''OPENCTI_URL'' \<mapsto> ''http://test:8080''] =
     Inr \<lparr>api_url = ''http://test:8080'', api_token = ''test-token''\<rparr> \<and>
   (\<exists>e. create_opencti_client Map.empty = Inl e)"
  using create_opencti_client_cases [of "[''OPENCTI_TOKEN'' \<mapsto> ''test-token'']"]
        create_opencti_client_cases [of "[''OPENCTI_TOKEN'' \<mapsto> ''test-token'', ''OPENCTI_URL'' \<mapsto> ''http://test:8080'']"]
        create_opencti_client_cases [of "Map.empty"]
  by simp

text \<open>With \<open>OPENCTI_TOKEN\<close> present and empty, initialisation fails although the setting
  is not absent.\<close>

theorem create_opencti_client_empty_token_counterexample:
  "[''OPENCTI_TOKEN'' \<mapsto> ''''] ''OPENCTI_TOKEN'' \<noteq> None \<and>
   create_opencti_client [''OPENCTI_TOKEN'' \<mapsto> ''''] =
     Inl (RuntimeError ''OPENCTI_TOKEN environment variable must be set to authenticate with OpenCTI'')"
  by (simp add: create_opencti_client_def)


section \<open>Forward and reverse traversal\<close>

lemma format_relationship_target_projected:
  "is_relationship ''to'' r \<Longrightarrow> format_relationship_target r = Inr (projected ''to'' r)"
  by (auto simp: is_relationship_def format_relationship_target_def projected_def endpoint_def
      field_or_empty_def res_bind_def split: pyval.splits option.splits)

lemma reverse_projected:
  "is_relationship ''from'' r \<Longrightarrow>
     res_bind (py_get r ''from'' (PDict [])) (\<lambda>from_obj.
     res_bind (py_get from_obj ''stix_id'' (PStr '''')) (\<lambda>sid.
     res_bind (py_get from_obj ''name'' (PStr '''')) (\<lambda>nm.
       Inr (PDict [(''stix_id'', sid), (''name'', nm)])))) = Inr (projected ''from'' r)"
  by (auto simp: is_relationship_def projected_def endpoint_def
      field_or_empty_def res_bind_def split: pyval.splits option.splits)

lemma get_related_entities_projected:
  assumes "list_all (is_relationship ''to'') (relations_from c i ts)"
  shows "get_related_entities c i ts =
           ([RelationsFrom i ts], Inr (map (projected ''to'') (relations_from c i ts)))"
proof -
  have "map_res format_relationship_target (relations_from c i ts) =
          Inr (map (projected ''to'') (relations_from c i ts))"
    using assms by (intro map_res_Inr) (simp add: list_all_iff format_relationship_target_projected)
  then show ?thesis
    by (simp add: get_related_entities_def io_simps io_lift_def)
qed

lemma get_reverse_related_entities_projected:
  assumes "list_all (is_relationship ''from'') (relations_to c i ts)"
  shows "get_reverse_related_entities c i ts =
           ([RelationsTo i ts], Inr (map (projected ''from'') (relations_to c i ts)))"
proof -
  have "map_res (\<lambda>rel.
         res_bind (py_get rel ''from'' (PDict [])) (\<lambda>from_obj.
         res_bind (py_get from_obj ''stix_id'' (PStr '''')) (\<lambda>sid.
         res_bind (py_get from_obj ''name'' (PStr '''')) (\<lambda>nm.
           Inr (PDict [(''stix_id'', sid), (''name'', nm)]))))) (relations_to c i ts) =
          Inr (map (projected ''from'') (relations_to c i ts))"
    using assms by (intro map_res_Inr) (simp add: list_all_iff reverse_projected)
  then show ?thesis
    by (simp add: get_reverse_related_entities_def io_simps io_lift_def)
qed

lemma reverse_trace: "fst (get_reverse_related_entities c i ts) = [RelationsTo i ts]"
  by (simp add: get_reverse_related_entities_def io_simps io_lift_def)

text \<open>Only an absent field is replaced: a field that is present with the value \<open>None\<close> is
  passed through, and an endpoint that is present and \<open>None\<close> makes the projection raise.\<close>

lemma null_field_and_null_endpoint:
  "format_relationship_target (PDict [(''to'', PDict [(''stix_id'', PNone)])]) =
     Inr (PDict [(''stix_id'', PNone), (''name'', PStr '''')]) \<and>
   format_relationship_target (PDict [(''to'', PNone)]) = Inl AttributeError"
  by (simp add: format_relationship_target_def res_bind_def)

lemma demo_relations_from_123:
  "relations_from demo_platform (PStr ''123'') [''Malware''] =
     [PDict [(''to'', PDict [(''stix_id'', PStr ''malware--111''), (''name'', PStr ''X-Agent'')])],
      PDict [(''to'', PDict [(''stix_id'', PStr ''malware--222'')])],
      PDict []]"
  by (simp add: demo_platform_def)

lemma demo_relations_to_s1:
  "relations_to demo_platform (PStr ''s1'') [''Threat-Actor''] =
     [PDict [(''from'', PDict [(''stix_id'', PStr ''threat-actor--0''), (''name'', PStr ''Actor0'')])],
      PDict [(''from'', PDict [(''stix_id'', PStr ''threat-actor--1''), (''name'', PStr ''Actor1'')])],
      PDict [(''from'', PDict [(''stix_id'', PStr ''threat-actor--2''), (''name'', PStr ''Actor2'')])]]"
  by (simp add: demo_platform_def)

lemma map_res_Inl:
  assumes "\<And>x. x \<in> set xs \<Longrightarrow> f x = Inr (g x) \<or> f x = Inl e"
    and "\<exists>x \<in> set xs. f x = Inl e"
  shows "map_res f xs = Inl e"
  using assms
proof (induction xs)
  case Nil
  then show ?case by simp
next
  case (Cons x xs)
  show ?case
  proof (cases "f x")
    case (Inl a)
    with Cons.prems(1) [of x] show ?thesis by (simp add: res_bind_def)
  next
    case (Inr y)
    with Cons.prems(2) have "\<exists>z \<in> set xs. f z = Inl e" by auto
    with Cons.IH Cons.prems(1) have "map_res f xs = Inl e" by simp
    with Inr show ?thesis by (simp add: res_bind_def)
  qed
qed

lemma py_get_not_dict: "\<not> py_is_dict v \<Longrightarrow> py_get v k dflt = Inl AttributeError"
  by (cases v) simp_all

lemma format_relationship_target_raises:
  "\<not> is_relationship ''to'' r \<Longrightarrow> format_relationship_target r = Inl AttributeError"
  by (cases r)
    (auto simp: is_relationship_def format_relationship_target_def res_bind_def py_get_not_dict
      split: option.splits)

lemma reverse_raises:
  "\<not> is_relationship ''from'' r \<Longrightarrow>
     res_bind (py_get r ''from'' (PDict [])) (\<lambda>from_obj.
     res_bind (py_get from_obj ''stix_id'' (PStr '''')) (\<lambda>sid.
     res_bind (py_get from_obj ''name'' (PStr '''')) (\<lambda>nm.
       Inr (PDict [(''stix_id'', sid), (''name'', nm)])))) = Inl AttributeError"
  by (cases r)
    (auto simp: is_relationship_def res_bind_def py_get_not_dict split: option.splits)

lemma get_related_entities_raises:
  assumes "\<not> list_all (is_relationship ''to'') (relations_from c i ts)"
  shows "get_related_entities c i ts = ([RelationsFrom i ts], Inl AttributeError)"
proof -
  have "map_res format_relationship_target (relations_from c i ts) = Inl AttributeError"
  proof (rule map_res_Inl [where g = "projected ''to''"])
    fix x
    show "format_relationship_target x = Inr (projected ''to'' x) \<or>
          format_relationship_target x = Inl AttributeError"
      using format_relationship_target_projected [of x] format_relationship_target_raises [of x]
      by blast
  next
    from assms obtain x where "x \<in> set (relations_from c i ts)" "\<not> is_relationship ''to'' x"
      by (auto simp: list_all_iff)
    then show "\<exists>x \<in> set (relations_from c i ts). format_relationship_target x = Inl AttributeError"
      using format_relationship_target_raises by blast
  qed
  then show ?thesis
    by (simp add: get_related_entities_def io_simps io_lift_def)
qed

lemma get_reverse_related_entities_raises:
  assumes "\<not> list_all (is_relationship ''from'') (relations_to c i ts)"
  shows "get_reverse_related_entities c i ts = ([RelationsTo i ts], Inl AttributeError)"
proof -
  let ?f = "\<lambda>rel.
         res_bind (py_get rel ''from'' (PDict [])) (\<lambda>from_obj.
         res_bind (py_get from_obj ''stix_id'' (PStr '''')) (\<lambda>sid.
         res_bind (py_get from_obj ''name'' (PStr '''')) (\<lambda>nm.
           Inr (PDict [(''stix_id'', sid), (''name'', nm)]))))"
  have "map_res ?f (relations_to c i ts) = Inl AttributeError"
  proof (rule map_res_Inl [where g = "projected ''from''"])
    fix x
    show "?f x = Inr (projected ''from'' x) \<or> ?f x = Inl AttributeError"
      using reverse_projected [of x] reverse_raises [of x] by blast
  next
    from assms obtain x where "x \<in> set (relations_to c i ts)" "\<not> is_relationship ''from'' x"
      by (auto simp: list_all_iff)
    then show "\<exists>x \<in> set (relations_to c i ts). ?f x = Inl AttributeError"
      using reverse_raises by blast
  qed
  then show ?thesis
    by (simp add: get_reverse_related_entities_def io_simps io_lift_def)
qed

text \<open>
  C4, as the code has it.  \<open>_get_related_entities\<close> and \<open>_get_reverse_related_entities\<close>
  return a list exactly when every relationship record is a dictionary whose counterpart
  endpoint (\<open>to\<close> going forward, \<open>from\<close> going back) is absent or a dictionary.  The list
  then has the length and the order of the collaborator's list, and its element number
  \<open>k\<close> is the record of exactly the two fields \<open>stix_id\<close> and \<open>name\<close> of the counterpart
  endpoint of relationship number \<open>k\<close>, with the empty string for a field that is absent,
  and for both when the endpoint is absent.  When some record has an endpoint that is
  present and not a dictionary, such as \<open>None\<close>, the traversal raises \<open>AttributeError\<close>.
\<close>

theorem traversal_projects_counterpart:
  "snd (get_related_entities c i ts) =
     (if list_all (is_relationship ''to'') (relations_from c i ts)
      then Inr (map (projected ''to'') (relations_from c i ts))
      else Inl AttributeError) \<and>
   (\<forall>out. snd (get_related_entities c i ts) = Inr out \<longrightarrow>
      length out = length (relations_from c i ts) \<and>
      (\<forall>k < length out. out ! k = projected ''to'' (relations_from c i ts ! k))) \<and>
   snd (get_reverse_related_entities c i ts) =
     (if list_all (is_relationship ''from'') (relations_to c i ts)
      then Inr (map (projected ''from'') (relations_to c i ts))
      else Inl AttributeError) \<and>
   (\<forall>out. snd (get_reverse_related_entities c i ts) = Inr out \<longrightarrow>
      length out = length (relations_to c i ts) \<and>
      (\<forall>k < length out. out ! k = projected ''from'' (relations_to c i ts ! k)))"
proof -
  have f: "snd (get_related_entities c i ts) =
     (if list_all (is_relationship ''to'') (relations_from c i ts)
      then Inr (map (projected ''to'') (relations_from c i ts))
      else Inl AttributeError)"
    by (simp add: get_related_entities_projected get_related_entities_raises)
  have r: "snd (get_reverse_related_entities c i ts) =
     (if list_all (is_relationship ''from'') (relations_to c i ts)
      then Inr (map (projected ''from'') (relations_to c i ts))
      else Inl AttributeError)"
    by (simp add: get_reverse_related_entities_projected get_reverse_related_entities_raises)
  from f have "\<forall>out. snd (get_related_entities c i ts) = Inr out \<longrightarrow>
      length out = length (relations_from c i ts) \<and>
      (\<forall>k < length out. out ! k = projected ''to'' (relations_from c i ts ! k))"
    by (auto split: if_splits)
  moreover from r have "\<forall>out. snd (get_reverse_related_entities c i ts) = Inr out \<longrightarrow>
      length out = length (relations_to c i ts) \<and>
      (\<forall>k < length out. out ! k = projected ''from'' (relations_to c i ts ! k))"
    by (auto split: if_splits)
  ultimately show ?thesis using f r by blast
qed

theorem traversal_projects_counterpart_witness:
  "snd (get_related_entities demo_platform (PStr ''123'') [''Malware'']) =
     Inr [PDict [(''stix_id'', PStr ''malware--111''), (''name'', PStr ''X-Agent'')],
          PDict [(''stix_id'', PStr ''malware--222''), (''name'', PStr '''')],
          PDict [(''stix_id'', PStr ''''), (''name'', PStr '''')]] \<and>
   snd (get_reverse_related_entities demo_platform (PStr ''s1'') [''Threat-Actor'']) =
     Inr [PDict [(''stix_id'', PStr ''threat-actor--0''), (''name'', PStr ''Actor0'')],
          PDict [(''stix_id'', PStr ''threat-actor--1''), (''name'', PStr ''Actor1'')],
          PDict [(''stix_id'', PStr ''threat-actor--2''), (''name'', PStr ''Actor2'')]]"
  using traversal_projects_counterpart [of demo_platform "PStr ''123''" "[''Malware'']"]
        traversal_projects_counterpart [of demo_platform "PStr ''s1''" "[''Threat-Actor'']"]
  by (simp add: demo_relations_from_123 demo_relations_to_s1 is_relationship_def projected_def
      endpoint_def field_or_empty_def)

text \<open>A collaborator list with one relationship whose endpoint is present and \<open>None\<close>: both
  traversals raise \<open>AttributeError\<close> and return no list.\<close>

theorem traversal_null_endpoint_counterexample:
  "relations_from null_endpoint_platform (PStr ''123'') [''Malware''] = [PDict [(''to'', PNone)]] \<and>
   snd (get_related_entities null_endpoint_platform (PStr ''123'') [''Malware'']) =
     Inl AttributeError \<and>
   relations_to null_endpoint_platform (PStr ''s1'') [''Threat-Actor''] =
     [PDict [(''from'', PNone)]] \<and>
   snd (get_reverse_related_entities null_endpoint_platform (PStr ''s1'') [''Threat-Actor'']) =
     Inl AttributeError"
  by (simp add: null_endpoint_platform_def get_related_entities_def
      get_reverse_related_entities_def format_relationship_target_def io_simps io_lift_def
      res_bind_def)


section \<open>Entities that are not found\<close>

text \<open>
  C2, as the code has it.  Each tool that answers a failed lookup itself (the eleven
  traversal tools below) returns the empty list after the one lookup, and
  \<open>get_report_details\<close> returns the record whose five fields \<open>stix_id\<close>, \<open>name\<close>,
  \<open>published\<close>, \<open>labels\<close> and \<open>description\<close> are the empty string; the sector tools return
  the empty list when neither the exact lookup nor the search finds a sector.  No result
  is null.  \<open>get_latest_reports_mentioning_threat_actor\<close> is not among them: after a
  failed lookup it returns what its search over reports finds.
\<close>

theorem not_found_results:
  "(read_by_name c ''intrusion_set'' n = PNone \<longrightarrow>
      get_malwares_of_intrusion_set c n = ([Read ''intrusion_set'' n], Inr []) \<and>
      get_attack_patterns_of_intrusion_set c n = ([Read ''intrusion_set'' n], Inr []) \<and>
      get_tools_used_by_intrusion_set c n = ([Read ''intrusion_set'' n], Inr []) \<and>
      get_ttps_of_intrusion_set c n = ([Read ''intrusion_set'' n], Inr [])) \<and>
   (read_by_name c ''malware'' n = PNone \<longrightarrow>
      get_vulnerabilities_of_malware c n = ([Read ''malware'' n], Inr [])) \<and>
   (read_by_name c ''threat_actor'' n = PNone \<longrightarrow>
      get_ttps_of_threat_actor c n = ([Read ''threat_actor'' n], Inr []) \<and>
      get_malwares_used_by_threat_actor c n = ([Read ''threat_actor'' n], Inr []) \<and>
      get_campaigns_by_threat_actor c n = ([Read ''threat_actor'' n], Inr []) \<and>
      get_vulnerabilities_exploited_by_threat_actor c n = ([Read ''threat_actor'' n], Inr [])) \<and>
   (read_by_name c ''report'' n = PNone \<longrightarrow>
      get_malwares_of_report c n = ([Read ''report'' n], Inr []) \<and>
      get_intrusion_sets_of_report c n = ([Read ''report'' n], Inr []) \<and>
      get_report_details c n =
        ([Read ''report'' n],
         Inr (PDict [(''stix_id'', PStr ''''), (''name'', PStr ''''), (''published'', PStr ''''),
                     (''labels'', PStr ''''), (''description'', PStr '''')]))) \<and>
   (resolve_sector c n = None \<longrightarrow>
      snd (get_threat_actors_targeting_sector c n limit) = Inr [] \<and>
      snd (get_intrusion_sets_targeting_sector c n limit) = Inr [])"
  by (auto simp: get_malwares_of_intrusion_set_def get_attack_patterns_of_intrusion_set_def
      get_tools_used_by_intrusion_set_def get_ttps_of_intrusion_set_def
      get_vulnerabilities_of_malware_def get_ttps_of_threat_actor_def
      get_malwares_used_by_threat_actor_def get_campaigns_by_threat_actor_def
      get_vulnerabilities_exploited_by_threat_actor_def get_malwares_of_report_def
      get_intrusion_sets_of_report_def get_report_details_def find_entity_by_name_def
      get_threat_actors_targeting_sector_def get_intrusion_sets_targeting_sector_def
      resolve_sector_def sector_search_args_def io_simps io_return_def
      split: if_splits list.splits)

theorem not_found_results_witness:
  "get_malwares_of_intrusion_set empty_platform ''DoesNotExist'' =
     ([Read ''intrusion_set'' ''DoesNotExist''], Inr []) \<and>
   get_malwares_of_report empty_platform ''DoesNotExist'' = ([Read ''report'' ''DoesNotExist''], Inr []) \<and>
   get_ttps_of_threat_actor empty_platform ''DoesNotExist'' =
     ([Read ''threat_actor'' ''DoesNotExist''], Inr []) \<and>
   get_vulnerabilities_of_malware empty_platform ''DoesNotExist'' =
     ([Read ''malware'' ''DoesNotExist''], Inr []) \<and>
   snd (get_report_details empty_platform ''DoesNotExist'') =
     Inr (PDict [(''stix_id'', PStr ''''), (''name'', PStr ''''), (''published'', PStr ''''),
                 (''labels'', PStr ''''), (''description'', PStr '''')]) \<and>
   snd (get_threat_actors_targeting_sector empty_platform ''DoesNotExist'' 10) = Inr []"
  using not_found_results [of empty_platform "''DoesNotExist''" 10]
  by (simp add: empty_platform_def resolve_sector_def)

text \<open>A list-returning tool whose lookup by name finds nothing and whose result is not
  empty: the threat actor is unknown, the search over reports has one hit.\<close>

theorem not_found_fallback_counterexample:
  "read_by_name demo_platform ''threat_actor'' ''UnknownActor'' = PNone \<and>
   snd (get_latest_reports_mentioning_threat_actor demo_platform ''UnknownActor'' 10) =
     Inr [PDict [(''stix_id'', PStr ''report--333''), (''name'', PStr ''Older''),
                 (''published'', PStr ''2024-11-01''), (''labels'', PStr ''''),
                 (''description'', PStr ''Older report'')]]"
  by (simp add: get_latest_reports_mentioning_threat_actor_def find_entity_by_name_def
      demo_platform_def report_3_def report_row_def io_simps io_call_def io_lift_def
      res_bind_def py_or_def py_join_def)

section \<open>Sector tools\<close>

lemma threat_actors_targeting_sector_unfold:
  "get_threat_actors_targeting_sector c n limit =
     (case resolve_sector c n of
        None \<Rightarrow> ([Read ''identity'' n, ListEntities ''identity'' (sector_search_args n)], Inr [])
      | Some s \<Rightarrow>
          io_bind (Read ''identity'' n #
                   (if read_by_name c ''identity'' n = PNone
                    then [ListEntities ''identity'' (sector_search_args n)] else []), Inr s)
            (\<lambda>sector.
               io_bind (io_lift (py_subscript sector ''id'')) (\<lambda>i.
               io_bind (get_reverse_related_entities c i [''Threat-Actor'']) (\<lambda>found.
                 io_return (py_slice_to found limit)))))"
  by (simp add: get_threat_actors_targeting_sector_def resolve_sector_def sector_search_args_def
      io_simps io_return_def split: list.splits)

lemma intrusion_sets_targeting_sector_unfold:
  "get_intrusion_sets_targeting_sector c n limit =
     (case resolve_sector c n of
        None \<Rightarrow> ([Read ''identity'' n, ListEntities ''identity'' (sector_search_args n)], Inr [])
      | Some s \<Rightarrow>
          io_bind (Read ''identity'' n #
                   (if read_by_name c ''identity'' n = PNone
                    then [ListEntities ''identity'' (sector_search_args n)] else []), Inr s)
            (\<lambda>sector.
               io_bind (io_lift (py_subscript sector ''id'')) (\<lambda>i.
               io_bind (get_reverse_related_entities c i [''Intrusion-Set'']) (\<lambda>found.
                 io_return (py_slice_to found limit)))))"
  by (simp add: get_intrusion_sets_targeting_sector_def resolve_sector_def sector_search_args_def
      io_simps io_return_def split: list.splits)

lemma resolve_sector_None_read:
  "resolve_sector c n = None \<Longrightarrow> read_by_name c ''identity'' n = PNone"
  by (simp add: resolve_sector_def split: if_splits)

lemma demo_resolve_Financial:
  "resolve_sector demo_platform ''Financial'' =
     Some (PDict [(''id'', PStr ''s1''), (''name'', PStr ''Financial'')])"
  by (simp add: resolve_sector_def demo_platform_def)

lemma demo_resolve_finance:
  "resolve_sector demo_platform ''finance'' =
     Some (PDict [(''id'', PStr ''s1''), (''name'', PStr ''Financial'')])"
  by (simp add: resolve_sector_def demo_platform_def sector_search_args_def)

text \<open>
  C3, as the code has it.  When the sector is resolved and the collaborator returns \<open>n\<close>
  relationship records, \<open>get_threat_actors_targeting_sector\<close> and
  \<open>get_intrusion_sets_targeting_sector\<close> return the slice \<open>[:limit]\<close> of the projected
  list; for every \<open>limit\<close> that is not negative this is its first \<open>min(limit, n)\<close>
  elements, in the collaborator's order.
\<close>

theorem sector_limit_law:
  "resolve_sector c n = Some s \<Longrightarrow> py_subscript s ''id'' = Inr i \<Longrightarrow>
   (list_all (is_relationship ''from'') (relations_to c i [''Threat-Actor'']) \<longrightarrow>
      snd (get_threat_actors_targeting_sector c n limit) =
        Inr (py_slice_to (map (projected ''from'') (relations_to c i [''Threat-Actor''])) limit) \<and>
      (0 \<le> limit \<longrightarrow>
         snd (get_threat_actors_targeting_sector c n limit) =
           Inr (take (nat limit) (map (projected ''from'') (relations_to c i [''Threat-Actor'']))) \<and>
         (\<forall>out. snd (get_threat_actors_targeting_sector c n limit) = Inr out \<longrightarrow>
            length out = min (nat limit) (length (relations_to c i [''Threat-Actor'']))))) \<and>
   (list_all (is_relationship ''from'') (relations_to c i [''Intrusion-Set'']) \<longrightarrow>
      snd (get_intrusion_sets_targeting_sector c n limit) =
        Inr (py_slice_to (map (projected ''from'') (relations_to c i [''Intrusion-Set''])) limit) \<and>
      (0 \<le> limit \<longrightarrow>
         snd (get_intrusion_sets_targeting_sector c n limit) =
           Inr (take (nat limit) (map (projected ''from'') (relations_to c i [''Intrusion-Set'']))) \<and>
         (\<forall>out. snd (get_intrusion_sets_targeting_sector c n limit) = Inr out \<longrightarrow>
            length out = min (nat limit) (length (relations_to c i [''Intrusion-Set''])))))"
  by (auto simp: threat_actors_targeting_sector_unfold intrusion_sets_targeting_sector_unfold
      io_simps io_return_def get_reverse_related_entities_projected py_slice_to_def)

theorem sector_limit_law_witness:
  "snd (get_threat_actors_targeting_sector demo_platform ''Financial'' 2) =
     Inr [PDict [(''stix_id'', PStr ''threat-actor--0''), (''name'', PStr ''Actor0'')],
          PDict [(''stix_id'', PStr ''threat-actor--1''), (''name'', PStr ''Actor1'')]] \<and>
   snd (get_threat_actors_targeting_sector demo_platform ''Financial'' 10) =
     Inr [PDict [(''stix_id'', PStr ''threat-actor--0''), (''name'', PStr ''Actor0'')],
          PDict [(''stix_id'', PStr ''threat-actor--1''), (''name'', PStr ''Actor1'')],
          PDict [(''stix_id'', PStr ''threat-actor--2''), (''name'', PStr ''Actor2'')]] \<and>
   snd (get_intrusion_sets_targeting_sector demo_platform ''Financial'' 2) = Inr []"
proof -
  have is1: "relations_to demo_platform (PStr ''s1'') [''Intrusion-Set''] = []"
    by (simp add: demo_platform_def)
  have sub: "py_subscript (PDict [(''id'', PStr ''s1''), (''name'', PStr ''Financial'')]) ''id''
               = Inr (PStr ''s1'')"
    by simp
  show ?thesis
    using sector_limit_law [OF demo_resolve_Financial sub, of 2]
          sector_limit_law [OF demo_resolve_Financial sub, of 10]
    by (simp add: demo_relations_to_s1 is1 is_relationship_def projected_def
        endpoint_def field_or_empty_def py_slice_to_def)
qed

text \<open>With \<open>limit = -1\<close> and three relationships the tool returns two records, which is
  not \<open>min(-1, 3)\<close> of them.\<close>

theorem sector_limit_negative_counterexample:
  "snd (get_threat_actors_targeting_sector demo_platform ''Financial'' (- 1)) =
     Inr [PDict [(''stix_id'', PStr ''threat-actor--0''), (''name'', PStr ''Actor0'')],
          PDict [(''stix_id'', PStr ''threat-actor--1''), (''name'', PStr ''Actor1'')]] \<and>
   length (relations_to demo_platform (PStr ''s1'') [''Threat-Actor'']) = 3 \<and>
   (2 :: int) \<noteq> min (- 1) 3"
  by (simp add: threat_actors_targeting_sector_unfold demo_resolve_Financial io_simps io_return_def
      get_reverse_related_entities_projected demo_relations_to_s1 is_relationship_def
      projected_def endpoint_def field_or_empty_def py_slice_to_def)

text \<open>
  C8.  Both sector tools first make the exact-name lookup of the sector; they make the
  search, capped at one result, only when that lookup returned nothing, and take its
  first hit; when the search returns nothing either they return the empty list and make
  no traversal call.  The calls of a run are, in this order: the lookup, the search if
  the lookup failed, and the traversal from the resolved sector if there is one.
\<close>

theorem sector_resolution_order:
  "fst (get_threat_actors_targeting_sector c n limit) =
     Read ''identity'' n #
     (if read_by_name c ''identity'' n = PNone
      then [ListEntities ''identity'' (sector_search_args n)] else []) @
     (case resolve_sector c n of
        None \<Rightarrow> []
      | Some s \<Rightarrow> (case py_subscript s ''id'' of
                     Inl e \<Rightarrow> [] | Inr i \<Rightarrow> [RelationsTo i [''Threat-Actor'']])) \<and>
   fst (get_intrusion_sets_targeting_sector c n limit) =
     Read ''identity'' n #
     (if read_by_name c ''identity'' n = PNone
      then [ListEntities ''identity'' (sector_search_args n)] else []) @
     (case resolve_sector c n of
        None \<Rightarrow> []
      | Some s \<Rightarrow> (case py_subscript s ''id'' of
                     Inl e \<Rightarrow> [] | Inr i \<Rightarrow> [RelationsTo i [''Intrusion-Set'']])) \<and>
   (resolve_sector c n = None \<longrightarrow>
      snd (get_threat_actors_targeting_sector c n limit) = Inr [] \<and>
      snd (get_intrusion_sets_targeting_sector c n limit) = Inr []) \<and>
   (\<forall>s. resolve_sector c n = Some s \<longrightarrow>
      snd (get_threat_actors_targeting_sector c n limit) =
        snd (io_bind (io_lift (py_subscript s ''id'')) (\<lambda>i.
             io_bind (get_reverse_related_entities c i [''Threat-Actor'']) (\<lambda>found.
               io_return (py_slice_to found limit)))) \<and>
      snd (get_intrusion_sets_targeting_sector c n limit) =
        snd (io_bind (io_lift (py_subscript s ''id'')) (\<lambda>i.
             io_bind (get_reverse_related_entities c i [''Intrusion-Set'']) (\<lambda>found.
               io_return (py_slice_to found limit)))))"
proof (cases "resolve_sector c n")
  case None
  then show ?thesis
    by (simp add: threat_actors_targeting_sector_unfold intrusion_sets_targeting_sector_unfold
        resolve_sector_None_read)
next
  case (Some s)
  show ?thesis
  proof (cases "py_subscript s ''id''")
    case (Inl e)
    then show ?thesis
      by (simp add: threat_actors_targeting_sector_unfold intrusion_sets_targeting_sector_unfold
          Some io_simps)
  next
    case (Inr i)
    then show ?thesis
      by (simp add: threat_actors_targeting_sector_unfold intrusion_sets_targeting_sector_unfold
          Some io_simps fst_io_bind snd_io_bind reverse_trace io_return_def split: sum.splits)
  qed
qed

theorem sector_resolution_order_witness:
  "fst (get_threat_actors_targeting_sector demo_platform ''Financial'' 10) =
     [Read ''identity'' ''Financial'', RelationsTo (PStr ''s1'') [''Threat-Actor'']] \<and>
   fst (get_threat_actors_targeting_sector demo_platform ''finance'' 10) =
     [Read ''identity'' ''finance'', ListEntities ''identity'' (sector_search_args ''finance''),
      RelationsTo (PStr ''s1'') [''Threat-Actor'']] \<and>
   get_threat_actors_targeting_sector empty_platform ''Nonexistent Sector'' 10 =
     ([Read ''identity'' ''Nonexistent Sector'',
       ListEntities ''identity'' (sector_search_args ''Nonexistent Sector'')], Inr [])"
proof -
  have r1: "read_by_name demo_platform ''identity'' ''Financial'' \<noteq> PNone"
    and r2: "read_by_name demo_platform ''identity'' ''finance'' = PNone"
    by (simp_all add: demo_platform_def)
  have e: "resolve_sector empty_platform ''Nonexistent Sector'' = None"
    "read_by_name empty_platform ''identity'' ''Nonexistent Sector'' = PNone"
    by (simp_all add: resolve_sector_def empty_platform_def)
  show ?thesis
    using sector_resolution_order [of demo_platform "''Financial''" 10]
          sector_resolution_order [of demo_platform "''finance''" 10]
          sector_resolution_order [of empty_platform "''Nonexistent Sector''" 10]
    by (simp add: demo_resolve_Financial demo_resolve_finance r1 r2 e prod_eq_iff)
qed

section \<open>Report rows\<close>

lemma labels_text_defined:
  assumes "labels_ok (PDict d)"
  shows "\<exists>ls. (let labels = py_or (case map_of d ''labels'' of None \<Rightarrow> PNone | Some v \<Rightarrow> v) (PList [])
               in if py_is_list labels then py_join '', '' labels
                  else Inr (py_str (py_repr c) labels)) = Inr ls"
proof (cases "map_of d ''labels''")
  case None
  then show ?thesis by (simp add: py_or_def py_join_def res_bind_def)
next
  case (Some v)
  show ?thesis
  proof (cases v)
    case (PList xs)
    with Some assms have "list_all py_is_str xs" by (simp add: labels_ok_def)
    then obtain ss where "all_strs xs = Inr ss" using all_strs_list_all by blast
    with Some PList show ?thesis by (simp add: py_or_def py_join_def res_bind_def)
  qed (use Some in \<open>simp_all add: py_or_def py_join_def res_bind_def\<close>)
qed

lemma report_row_fields:
  assumes "labels_ok (PDict d)"
  shows "\<exists>ls. report_row c (PDict d) =
           Inr (PDict [(''stix_id'', field_or_empty d ''stix_id''),
                       (''name'', field_or_empty d ''name''),
                       (''published'',
                          py_or (case map_of d ''published'' of None \<Rightarrow> PNone | Some v \<Rightarrow> v) (PStr '''')),
                       (''labels'', PStr ls),
                       (''description'',
                          py_or (case map_of d ''description'' of None \<Rightarrow> PNone | Some v \<Rightarrow> v) (PStr ''''))])"
proof -
  from labels_text_defined [OF assms, of c] obtain ls where
    "(let labels = py_or (case map_of d ''labels'' of None \<Rightarrow> PNone | Some v \<Rightarrow> v) (PList [])
      in if py_is_list labels then py_join '', '' labels
         else Inr (py_str (py_repr c) labels)) = Inr ls" ..
  then show ?thesis
    by (simp add: report_row_def res_bind_def field_or_empty_def)
qed

lemma report_row_defined: "labels_ok r \<Longrightarrow> \<exists>row. report_row c r = Inr row"
proof -
  assume a: "labels_ok r"
  then obtain d where "r = PDict d" by (cases r) (simp_all add: labels_ok_def)
  with a report_row_fields [of d c] show ?thesis by auto
qed

text \<open>
  C9.  When the threat actor is not found by exact name,
  \<open>get_latest_reports_mentioning_threat_actor\<close> makes two calls only, the lookup and the
  search over reports with the actor's name as the search term, ordered by \<open>published\<close>,
  descending, and capped at \<open>limit\<close>; no relationship is traversed.  It returns the
  formatted hits of that search, and raises no error when they are well-formed reports.
\<close>

theorem unresolved_actor_searches_reports:
  "read_by_name c ''threat_actor'' n = PNone \<Longrightarrow>
   get_latest_reports_mentioning_threat_actor c n limit =
     ([Read ''threat_actor'' n,
       ListEntities ''report'' \<lparr>search = Some n, orderBy = Some ''published'',
                                orderMode = Some ''desc'', first = Some limit\<rparr>],
      map_res (report_row c)
        (list_entities c ''report'' \<lparr>search = Some n, orderBy = Some ''published'',
                                     orderMode = Some ''desc'', first = Some limit\<rparr>)) \<and>
   (list_all labels_ok
      (list_entities c ''report'' \<lparr>search = Some n, orderBy = Some ''published'',
                                   orderMode = Some ''desc'', first = Some limit\<rparr>) \<longrightarrow>
    (\<exists>rows. snd (get_latest_reports_mentioning_threat_actor c n limit) = Inr rows \<and>
            length rows =
              length (list_entities c ''report'' \<lparr>search = Some n, orderBy = Some ''published'',
                                                  orderMode = Some ''desc'', first = Some limit\<rparr>)))"
proof -
  assume a: "read_by_name c ''threat_actor'' n = PNone"
  let ?args = "\<lparr>search = Some n, orderBy = Some ''published'',
                 orderMode = Some ''desc'', first = Some limit\<rparr>"
  have eq: "get_latest_reports_mentioning_threat_actor c n limit =
     ([Read ''threat_actor'' n, ListEntities ''report'' ?args],
      map_res (report_row c) (list_entities c ''report'' ?args))"
    using a
    by (simp add: get_latest_reports_mentioning_threat_actor_def find_entity_by_name_def
        io_simps io_call_def io_lift_def Let_def)
  have "\<exists>rows. map_res (report_row c) (list_entities c ''report'' ?args) = Inr rows \<and>
               length rows = length (list_entities c ''report'' ?args)"
    if "list_all labels_ok (list_entities c ''report'' ?args)"
    using that by (intro map_res_defined report_row_defined) (simp add: list_all_iff)
  with eq show ?thesis by simp
qed

theorem unresolved_actor_searches_reports_witness:
  "get_latest_reports_mentioning_threat_actor demo_platform ''UnknownActor'' 10 =
     ([Read ''threat_actor'' ''UnknownActor'',
       ListEntities ''report'' \<lparr>search = Some ''UnknownActor'', orderBy = Some ''published'',
                                orderMode = Some ''desc'', first = Some 10\<rparr>],
      Inr [PDict [(''stix_id'', PStr ''report--333''), (''name'', PStr ''Older''),
                  (''published'', PStr ''2024-11-01''), (''labels'', PStr ''''),
                  (''description'', PStr ''Older report'')]])"
proof -
  have a: "read_by_name demo_platform ''threat_actor'' ''UnknownActor'' = PNone"
    by (simp add: demo_platform_def)
  have l: "list_entities demo_platform ''report''
             \<lparr>search = Some ''UnknownActor'', orderBy = Some ''published'',
              orderMode = Some ''desc'', first = Some 10\<rparr> = [report_3]"
    by (simp add: demo_platform_def)
  have r: "report_row demo_platform report_3 =
             Inr (PDict [(''stix_id'', PStr ''report--333''), (''name'', PStr ''Older''),
                  (''published'', PStr ''2024-11-01''), (''labels'', PStr ''''),
                  (''description'', PStr ''Older report'')])"
    by (simp add: report_row_def report_3_def res_bind_def py_or_def py_join_def)
  show ?thesis
    using unresolved_actor_searches_reports [OF a, of 10]
    by (simp add: l r res_bind_def)
qed


section \<open>Reports reached through relationships\<close>

subsection \<open>Collecting identifiers\<close>

lemma collect_ids_ids_of:
  "list_all (is_relationship key) rels \<Longrightarrow>
     collect_ids key rels acc = Inr (acc @ ids_of key rels)"
proof (induction rels arbitrary: acc)
  case Nil
  then show ?case by (simp add: ids_of_def)
next
  case (Cons r rels)
  from Cons.prems have r: "is_relationship key r" and rs: "list_all (is_relationship key) rels"
    by simp_all
  from r obtain d where d: "r = PDict d" by (cases r) (simp_all add: is_relationship_def)
  show ?case
  proof (cases "map_of d key")
    case None
    with d show ?thesis
      by (simp add: Cons.IH [OF rs] res_bind_def ids_of_def endpoint_def)
  next
    case (Some e)
    with r d obtain f where f: "e = PDict f" by (cases e) (simp_all add: is_relationship_def)
    show ?thesis
    proof (cases "map_of f ''id''")
      case None
      with d Some f show ?thesis
        by (simp add: Cons.IH [OF rs] res_bind_def ids_of_def endpoint_def)
    next
      case (Some v)
      with d \<open>map_of d key = Some e\<close> f show ?thesis
        by (simp add: Cons.IH [OF rs] res_bind_def ids_of_def endpoint_def)
    qed
  qed
qed

subsection \<open>The set of identifiers\<close>

lemma py_set_add_fold:
  "distinct (map py_hash_norm acc) \<Longrightarrow>
     distinct (map py_hash_norm (foldl py_set_add acc xs)) \<and>
     py_hash_norm ` set (foldl py_set_add acc xs) = py_hash_norm ` (set acc \<union> set xs)"
proof (induction xs arbitrary: acc)
  case Nil
  then show ?case by simp
next
  case (Cons x xs)
  have "distinct (map py_hash_norm (py_set_add acc x))"
    using Cons.prems by (simp add: py_set_add_def)
  from Cons.IH [OF this] show ?case
    by (auto simp: py_set_add_def split: if_splits)
qed

subsection \<open>Fetching\<close>

lemma fetch_reports_eq:
  "fetch_reports c ids acc =
     (map (ReadId ''report'') ids,
      Inr (acc @ filter py_truthy (map (read_by_id c ''report'') ids)))"
  by (induction ids arbitrary: acc) (simp_all add: io_simps io_return_def)

subsection \<open>Sorting\<close>

lemma insort_key_map:
  "insort_key f (h x) (map h ys) = map h (insort_key (\<lambda>y. f (h y)) x ys)"
  by (induction ys) simp_all

lemma sort_key_map: "sort_key f (map h xs) = map h (sort_key (\<lambda>y. f (h y)) xs)"
  by (induction xs) (simp_all add: insort_key_map)

lemma sort_reverse_map: "sort_reverse f (map h xs) = map h (sort_reverse (\<lambda>y. f (h y)) xs)"
  by (simp add: sort_reverse_def sort_key_map rev_map)

lemma sort_reverse_short: "length xs \<le> 1 \<Longrightarrow> sort_reverse f xs = xs"
  by (cases xs) (simp_all add: sort_reverse_def)

lemma mset_sort_reverse: "mset (sort_reverse f xs) = mset xs"
  by (simp add: sort_reverse_def)

lemma length_sort_reverse: "length (sort_reverse f xs) = length xs"
  by (simp add: sort_reverse_def)

lemma set_sort_reverse: "set (sort_reverse f xs) = set xs"
  by (simp add: sort_reverse_def)

lemma sort_reverse_descending:
  "sorted_wrt (\<lambda>x y. f y \<le> f x) (sort_reverse f xs)"
proof -
  have "sorted (map f (sort_key f (rev xs)))" by (rule sorted_sort_key)
  then have "sorted_wrt (\<lambda>x y. f x \<le> f y) (sort_key f (rev xs))"
    by (simp add: sorted_map)
  then show ?thesis
    by (simp add: sort_reverse_def sorted_wrt_rev)
qed

lemma sort_reverse_stable:
  "filter (\<lambda>y. f y = k) (sort_reverse f xs) = filter (\<lambda>y. f y = k) xs"
  by (simp add: sort_reverse_def sort_key_stable rev_filter [symmetric])

lemma published_key_string:
  "published_ok r \<Longrightarrow> published_key r = Inr (PStr (published_string r))"
  by (auto simp: published_ok_def published_key_def published_string_def res_bind_def py_or_def
      split: pyval.splits option.splits)

lemma py_sort_reverse_published:
  assumes "list_all published_ok xs"
  shows "py_sort_reverse c published_key xs = Inr (sort_reverse published_string xs)"
proof -
  have keys: "map_res published_key xs = Inr (map (\<lambda>r. PStr (published_string r)) xs)"
    using assms by (intro map_res_Inr) (simp add: list_all_iff published_key_string)
  have strs: "list_all py_is_str (map (\<lambda>r. PStr (published_string r)) xs)"
    by (simp add: list_all_iff)
  have zip: "zip (map (\<lambda>r. PStr (published_string r)) xs) xs =
               map (\<lambda>r. (PStr (published_string r), r)) xs"
    by (induction xs) simp_all
  show ?thesis
    by (simp add: py_sort_reverse_def keys res_bind_def strs zip sort_reverse_map
        sort_reverse_short comp_def)
qed

subsection \<open>The branch taken when the actor is resolved\<close>

lemma map_res_Inr_iff: "map_res f xs = Inr ys \<longleftrightarrow> map f xs = map Inr ys"
proof (induction xs arbitrary: ys)
  case Nil
  then show ?case by auto
next
  case (Cons x xs)
  show ?case
  proof (cases "f x")
    case (Inl e)
    then show ?thesis by (cases ys) (auto simp: res_bind_def)
  next
    case (Inr y)
    show ?thesis
    proof (cases "map_res f xs")
      case (Inl e)
      with Cons.IH have "\<And>zs. map f xs \<noteq> map Inr zs" by auto
      with Inl Inr show ?thesis by (cases ys) (auto simp: res_bind_def)
    next
      case r: (Inr zs)
      with Cons.IH [of zs] have "map f xs = map Inr zs" by simp
      with r Inr show ?thesis by (cases ys) (auto simp: res_bind_def inj_map_eq_map)
    qed
  qed
qed

lemma reports_via_relationships_eq:
  assumes "py_subscript actor ''id'' = Inr a"
    and "list_all (is_relationship ''to'') (relations_from c a [''Report''])"
    and "list_all (is_relationship ''from'') (relations_to c a [''Report''])"
    and "list_all py_hashable (merged_ids c a)"
    and "list_all published_ok (found_reports c a)"
  shows "reports_via_relationships c actor limit =
     (RelationsFrom a [''Report''] # RelationsTo a [''Report''] #
        map (ReadId ''report'') (fetched_ids c a),
      Inr (py_slice_to (sort_reverse published_string (found_reports c a)) limit))"
proof -
  have f: "collect_ids ''to'' (relations_from c a [''Report'']) [] =
             Inr (ids_of ''to'' (relations_from c a [''Report'']))"
    using collect_ids_ids_of [OF assms(2), of "[]"] by simp
  have r: "collect_ids ''from'' (relations_to c a [''Report''])
             (ids_of ''to'' (relations_from c a [''Report''])) = Inr (merged_ids c a)"
    using collect_ids_ids_of [OF assms(3)] by (simp add: merged_ids_def)
  have s: "py_set c (merged_ids c a) = Inr (fetched_ids c a)"
    using assms(4) by (simp add: py_set_def fetched_ids_def)
  have srt: "py_sort_reverse c published_key (found_reports c a) =
               Inr (sort_reverse published_string (found_reports c a))"
    by (rule py_sort_reverse_published [OF assms(5)])
  show ?thesis
    by (simp add: reports_via_relationships_def assms(1) io_simps f r s fetch_reports_eq
        found_reports_def [symmetric] srt io_return_def)
qed

lemma mentioning_resolved_eq:
  assumes "read_by_name c ''threat_actor'' n \<noteq> PNone"
    and "py_subscript (read_by_name c ''threat_actor'' n) ''id'' = Inr a"
    and "list_all (is_relationship ''to'') (relations_from c a [''Report''])"
    and "list_all (is_relationship ''from'') (relations_to c a [''Report''])"
    and "list_all py_hashable (merged_ids c a)"
    and "list_all published_ok (found_reports c a)"
  shows "get_latest_reports_mentioning_threat_actor c n limit =
     (Read ''threat_actor'' n # RelationsFrom a [''Report''] # RelationsTo a [''Report''] #
        map (ReadId ''report'') (fetched_ids c a),
      map_res (report_row c)
        (py_slice_to (sort_reverse published_string (found_reports c a)) limit))"
  using assms(1)
  by (simp add: get_latest_reports_mentioning_threat_actor_def find_entity_by_name_def Let_def
      io_simps reports_via_relationships_eq [OF assms(2-6)] io_lift_def)

lemma set_py_slice_to: "set (py_slice_to xs limit) \<subseteq> set xs"
  by (auto simp: py_slice_to_def dest: in_set_takeD)

lemma mset_py_slice_to: "mset (py_slice_to xs limit) \<subseteq># mset xs"
proof -
  have "mset (take k xs) \<subseteq># mset xs" for k
    by (metis append_take_drop_id mset_append mset_subset_eq_add_left)
  then show ?thesis by (simp add: py_slice_to_def)
qed

lemma sorted_wrt_py_slice_to: "sorted_wrt P xs \<Longrightarrow> sorted_wrt P (py_slice_to xs limit)"
  by (simp add: py_slice_to_def sorted_wrt_take)

lemma report_row_published:
  assumes "labels_ok r" and "published_ok r" and "report_row c r = Inr row"
  shows "published_string row = published_string r"
proof -
  from assms(1) obtain d where d: "r = PDict d" by (cases r) (simp_all add: labels_ok_def)
  from report_row_fields [of d c] assms(1) d obtain ls where
    "report_row c (PDict d) =
           Inr (PDict [(''stix_id'', field_or_empty d ''stix_id''),
                       (''name'', field_or_empty d ''name''),
                       (''published'',
                          py_or (case map_of d ''published'' of None \<Rightarrow> PNone | Some v \<Rightarrow> v) (PStr '''')),
                       (''labels'', PStr ls),
                       (''description'',
                          py_or (case map_of d ''description'' of None \<Rightarrow> PNone | Some v \<Rightarrow> v) (PStr ''''))])"
    by auto
  with assms(2,3) d show ?thesis
    by (auto simp: published_string_def published_ok_def py_or_def
        split: option.splits pyval.splits if_splits)
qed

lemma rows_of_slice:
  assumes "list_all labels_ok xs"
  shows "\<exists>rows. map_res (report_row c) xs = Inr rows \<and> map Inr rows = map (report_row c) xs"
proof -
  from assms have "\<exists>rows. map_res (report_row c) xs = Inr rows \<and> length rows = length xs"
    by (intro map_res_defined report_row_defined) (simp add: list_all_iff)
  then show ?thesis by (auto simp: map_res_Inr_iff)
qed

lemma rows_published:
  assumes "map Inr rows = map (report_row c) xs"
    and "list_all labels_ok xs" and "list_all published_ok xs"
  shows "map published_string rows = map published_string xs"
proof (rule nth_equalityI)
  from assms(1) have len: "length rows = length xs"
    by (metis length_map)
  then show "length (map published_string rows) = length (map published_string xs)" by simp
  fix i assume "i < length (map published_string rows)"
  then have i: "i < length xs" "i < length rows" using len by simp_all
  from assms(1) i have "report_row c (xs ! i) = Inr (rows ! i)"
    by (metis nth_map)
  moreover from assms(2,3) i have "labels_ok (xs ! i)" "published_ok (xs ! i)"
    by (simp_all add: list_all_length)
  ultimately have "published_string (rows ! i) = published_string (xs ! i)"
    by (rule report_row_published [rotated 2])
  with i show "map published_string rows ! i = map published_string xs ! i" by simp
qed

lemma list_all_py_slice_to: "list_all P xs \<Longrightarrow> list_all P (py_slice_to xs limit)"
  using set_py_slice_to [of xs limit] by (auto simp: list_all_iff)

lemma descending_empty_last:
  assumes "sorted_wrt (\<lambda>x y. f y \<le> f x) xs" and "i < j" and "j < length xs"
    and "f (xs ! i) = ([] :: string)"
  shows "f (xs ! j) = []"
proof -
  from assms(1-3) have "f (xs ! j) \<le> f (xs ! i)"
    by (simp add: sorted_wrt_iff_nth_less)
  with assms(4) show ?thesis by simp
qed

lemma filter_read_id_map: "filter is_read_id (map (ReadId t) xs) = map (ReadId t) xs"
  by (induction xs) simp_all

subsection \<open>The example platform\<close>

lemma demo_actor_APT28:
  "read_by_name demo_platform ''threat_actor'' ''APT28'' =
     PDict [(''id'', PStr ''a1''), (''name'', PStr ''APT28'')]"
  by (simp add: demo_platform_def)

lemma demo_actor_Lazarus:
  "read_by_name demo_platform ''threat_actor'' ''Lazarus'' =
     PDict [(''id'', PStr ''a2''), (''name'', PStr ''Lazarus'')]"
  by (simp add: demo_platform_def)

lemma demo_forward_a1:
  "relations_from demo_platform (PStr ''a1'') [''Report''] =
     [PDict [(''to'', PDict [(''id'', PStr ''r1'')])],
      PDict [(''to'', PDict [(''id'', PStr ''r2'')])]]"
  by (simp add: demo_platform_def)

lemma demo_reverse_a1:
  "relations_to demo_platform (PStr ''a1'') [''Report''] =
     [PDict [(''from'', PDict [(''id'', PStr ''r1'')])],
      PDict [(''from'', PDict [(''id'', PStr ''r3'')])],
      PDict [(''from'', PDict [(''id'', PStr ''r4'')])]]"
  by (simp add: demo_platform_def)

lemma demo_forward_a2:
  "relations_from demo_platform (PStr ''a2'') [''Report''] =
     [PDict [(''to'', PDict [(''id'', PStr ''r1'')])],
      PDict [(''to'', PDict [(''id'', PStr ''r3'')])]]"
  by (simp add: demo_platform_def)

lemma demo_reverse_a2:
  "relations_to demo_platform (PStr ''a2'') [''Report''] =
     [PDict [(''from'', PDict [(''id'', PStr ''r1'')])]]"
  by (simp add: demo_platform_def)

lemma demo_ids_a1:
  "ids_of ''to'' (relations_from demo_platform (PStr ''a1'') [''Report'']) =
     [PStr ''r1'', PStr ''r2'']"
  "ids_of ''from'' (relations_to demo_platform (PStr ''a1'') [''Report'']) =
     [PStr ''r1'', PStr ''r3'', PStr ''r4'']"
  by (simp_all add: demo_forward_a1 demo_reverse_a1 ids_of_def endpoint_def)

lemma demo_ids_a2:
  "ids_of ''to'' (relations_from demo_platform (PStr ''a2'') [''Report'']) =
     [PStr ''r1'', PStr ''r3'']"
  "ids_of ''from'' (relations_to demo_platform (PStr ''a2'') [''Report'']) = [PStr ''r1'']"
  by (simp_all add: demo_forward_a2 demo_reverse_a2 ids_of_def endpoint_def)

lemma demo_set_order: "set_order demo_platform = rev"
  by (simp add: demo_platform_def)

lemma demo_fetched_a1:
  "fetched_ids demo_platform (PStr ''a1'') = [PStr ''r4'', PStr ''r3'', PStr ''r2'', PStr ''r1'']"
  by (simp add: fetched_ids_def merged_ids_def demo_ids_a1 demo_set_order py_set_add_def)

lemma demo_fetched_a2:
  "fetched_ids demo_platform (PStr ''a2'') = [PStr ''r3'', PStr ''r1'']"
  by (simp add: fetched_ids_def merged_ids_def demo_ids_a2 demo_set_order py_set_add_def)

lemma demo_read_by_id:
  "read_by_id demo_platform ''report'' (PStr ''r1'') = report_1"
  "read_by_id demo_platform ''report'' (PStr ''r2'') = report_2"
  "read_by_id demo_platform ''report'' (PStr ''r3'') = report_3"
  "read_by_id demo_platform ''report'' (PStr ''r4'') = PNone"
  by (simp_all add: demo_platform_def)

lemma demo_found_a1: "found_reports demo_platform (PStr ''a1'') = [report_3, report_2, report_1]"
  by (simp add: found_reports_def demo_fetched_a1 demo_read_by_id)
    (simp add: report_1_def report_2_def report_3_def)

lemma demo_found_a2: "found_reports demo_platform (PStr ''a2'') = [report_3, report_1]"
  by (simp add: found_reports_def demo_fetched_a2 demo_read_by_id)
    (simp add: report_1_def report_3_def)

lemma demo_reports_ok:
  "published_ok report_1" "published_ok report_2" "published_ok report_3"
  "labels_ok report_1" "labels_ok report_2" "labels_ok report_3"
  by (simp_all add: published_ok_def labels_ok_def report_1_def report_2_def report_3_def)

lemma demo_published:
  "published_string report_1 = ''2024-12-01''"
  "published_string report_2 = ''''"
  "published_string report_3 = ''2024-11-01''"
  by (simp_all add: published_string_def report_1_def report_2_def report_3_def)

lemma demo_rows:
  "report_row demo_platform report_1 =
     Inr (PDict [(''stix_id'', PStr ''report--111''), (''name'', PStr ''APT28 Analysis''),
                 (''published'', PStr ''2024-12-01''), (''labels'', PStr ''apt''),
                 (''description'', PStr ''APT28 report'')])"
  "report_row demo_platform report_2 =
     Inr (PDict [(''stix_id'', PStr ''report--222''), (''name'', PStr ''Undated''),
                 (''published'', PStr ''''), (''labels'', PStr ''''),
                 (''description'', PStr '''')])"
  "report_row demo_platform report_3 =
     Inr (PDict [(''stix_id'', PStr ''report--333''), (''name'', PStr ''Older''),
                 (''published'', PStr ''2024-11-01''), (''labels'', PStr ''''),
                 (''description'', PStr ''Older report'')])"
  by (simp_all add: report_row_def report_1_def report_2_def report_3_def res_bind_def
      py_or_def py_join_def)

lemma demo_sorted_a1:
  "sort_reverse published_string [report_3, report_2, report_1] = [report_1, report_3, report_2]"
  by (simp add: sort_reverse_def demo_published)

lemma demo_sorted_a2:
  "sort_reverse published_string [report_3, report_1] = [report_1, report_3]"
  by (simp add: sort_reverse_def demo_published)

lemma demo_hyps_a1:
  "read_by_name demo_platform ''threat_actor'' ''APT28'' \<noteq> PNone"
  "py_subscript (read_by_name demo_platform ''threat_actor'' ''APT28'') ''id'' = Inr (PStr ''a1'')"
  "list_all (is_relationship ''to'') (relations_from demo_platform (PStr ''a1'') [''Report''])"
  "list_all (is_relationship ''from'') (relations_to demo_platform (PStr ''a1'') [''Report''])"
  "list_all py_hashable (merged_ids demo_platform (PStr ''a1''))"
  "list_all published_ok (found_reports demo_platform (PStr ''a1''))"
  "list_all labels_ok (found_reports demo_platform (PStr ''a1''))"
proof -
  show "read_by_name demo_platform ''threat_actor'' ''APT28'' \<noteq> PNone"
    "py_subscript (read_by_name demo_platform ''threat_actor'' ''APT28'') ''id'' = Inr (PStr ''a1'')"
    by (simp_all add: demo_actor_APT28)
  show "list_all (is_relationship ''to'') (relations_from demo_platform (PStr ''a1'') [''Report''])"
    by (simp add: demo_forward_a1 is_relationship_def)
  show "list_all (is_relationship ''from'') (relations_to demo_platform (PStr ''a1'') [''Report''])"
    by (simp add: demo_reverse_a1 is_relationship_def)
  show "list_all py_hashable (merged_ids demo_platform (PStr ''a1''))"
    by (simp add: merged_ids_def demo_ids_a1)
  show "list_all published_ok (found_reports demo_platform (PStr ''a1''))"
    "list_all labels_ok (found_reports demo_platform (PStr ''a1''))"
    by (simp_all add: demo_found_a1 demo_reports_ok)
qed

lemma demo_hyps_a2:
  "read_by_name demo_platform ''threat_actor'' ''Lazarus'' \<noteq> PNone"
  "py_subscript (read_by_name demo_platform ''threat_actor'' ''Lazarus'') ''id'' = Inr (PStr ''a2'')"
  "list_all (is_relationship ''to'') (relations_from demo_platform (PStr ''a2'') [''Report''])"
  "list_all (is_relationship ''from'') (relations_to demo_platform (PStr ''a2'') [''Report''])"
  "list_all py_hashable (merged_ids demo_platform (PStr ''a2''))"
  "list_all published_ok (found_reports demo_platform (PStr ''a2''))"
  "list_all labels_ok (found_reports demo_platform (PStr ''a2''))"
proof -
  show "read_by_name demo_platform ''threat_actor'' ''Lazarus'' \<noteq> PNone"
    "py_subscript (read_by_name demo_platform ''threat_actor'' ''Lazarus'') ''id'' = Inr (PStr ''a2'')"
    by (simp_all add: demo_actor_Lazarus)
  show "list_all (is_relationship ''to'') (relations_from demo_platform (PStr ''a2'') [''Report''])"
    by (simp add: demo_forward_a2 is_relationship_def)
  show "list_all (is_relationship ''from'') (relations_to demo_platform (PStr ''a2'') [''Report''])"
    by (simp add: demo_reverse_a2 is_relationship_def)
  show "list_all py_hashable (merged_ids demo_platform (PStr ''a2''))"
    by (simp add: merged_ids_def demo_ids_a2)
  show "list_all published_ok (found_reports demo_platform (PStr ''a2''))"
    "list_all labels_ok (found_reports demo_platform (PStr ''a2''))"
    by (simp_all add: demo_found_a2 demo_reports_ok)
qed

lemma demo_mentioning_APT28:
  "get_latest_reports_mentioning_threat_actor demo_platform ''APT28'' limit =
     ([Read ''threat_actor'' ''APT28'', RelationsFrom (PStr ''a1'') [''Report''],
       RelationsTo (PStr ''a1'') [''Report''], ReadId ''report'' (PStr ''r4''),
       ReadId ''report'' (PStr ''r3''), ReadId ''report'' (PStr ''r2''),
       ReadId ''report'' (PStr ''r1'')],
      map_res (report_row demo_platform) (py_slice_to [report_1, report_3, report_2] limit))"
proof -
  have "get_latest_reports_mentioning_threat_actor demo_platform ''APT28'' limit =
     (Read ''threat_actor'' ''APT28'' # RelationsFrom (PStr ''a1'') [''Report''] #
        RelationsTo (PStr ''a1'') [''Report''] #
        map (ReadId ''report'') (fetched_ids demo_platform (PStr ''a1'')),
      map_res (report_row demo_platform)
        (py_slice_to (sort_reverse published_string (found_reports demo_platform (PStr ''a1'')))
           limit))"
    by (rule mentioning_resolved_eq [OF demo_hyps_a1(1-6)])
  then show ?thesis
    by (simp add: demo_fetched_a1 demo_found_a1 demo_sorted_a1)
qed

lemma demo_mentioning_Lazarus:
  "get_latest_reports_mentioning_threat_actor demo_platform ''Lazarus'' limit =
     ([Read ''threat_actor'' ''Lazarus'', RelationsFrom (PStr ''a2'') [''Report''],
       RelationsTo (PStr ''a2'') [''Report''], ReadId ''report'' (PStr ''r3''),
       ReadId ''report'' (PStr ''r1'')],
      map_res (report_row demo_platform) (py_slice_to [report_1, report_3] limit))"
proof -
  have "get_latest_reports_mentioning_threat_actor demo_platform ''Lazarus'' limit =
     (Read ''threat_actor'' ''Lazarus'' # RelationsFrom (PStr ''a2'') [''Report''] #
        RelationsTo (PStr ''a2'') [''Report''] #
        map (ReadId ''report'') (fetched_ids demo_platform (PStr ''a2'')),
      map_res (report_row demo_platform)
        (py_slice_to (sort_reverse published_string (found_reports demo_platform (PStr ''a2'')))
           limit))"
    by (rule mentioning_resolved_eq [OF demo_hyps_a2(1-6)])
  then show ?thesis
    by (simp add: demo_fetched_a2 demo_found_a2 demo_sorted_a2)
qed

subsection \<open>Sorting and truncation\<close>

text \<open>
  C6.  When the actor is resolved and the platform's records are well formed, the reports
  fetched again are sorted by publication date, as strings, in descending order, a
  missing date (absent or \<open>None\<close>) counting as the empty string; the sort is stable and
  loses no report; the list is then cut by \<open>[:limit]\<close>, its first \<open>limit\<close> elements for
  a limit that is not negative, and each remaining report is formatted.  So the returned
  rows are in descending order of their \<open>published\<close> field, and a row without a date is
  followed only by rows without a date.
\<close>

theorem resolved_actor_reports_sorted:
  assumes "read_by_name c ''threat_actor'' n \<noteq> PNone"
    and "py_subscript (read_by_name c ''threat_actor'' n) ''id'' = Inr a"
    and "list_all (is_relationship ''to'') (relations_from c a [''Report''])"
    and "list_all (is_relationship ''from'') (relations_to c a [''Report''])"
    and "list_all py_hashable (merged_ids c a)"
    and "list_all published_ok (found_reports c a)"
    and "list_all labels_ok (found_reports c a)"
  shows "\<exists>S rows.
      snd (get_latest_reports_mentioning_threat_actor c n limit) = Inr rows \<and>
      mset S = mset (found_reports c a) \<and>
      (\<forall>k. filter (\<lambda>r. published_string r = k) S =
           filter (\<lambda>r. published_string r = k) (found_reports c a)) \<and>
      sorted_wrt (\<lambda>x y. published_string y \<le> published_string x) S \<and>
      map Inr rows = map (report_row c) (py_slice_to S limit) \<and>
      (0 \<le> limit \<longrightarrow> map Inr rows = map (report_row c) (take (nat limit) S)) \<and>
      map published_string rows = map published_string (py_slice_to S limit) \<and>
      sorted_wrt (\<lambda>x y. published_string y \<le> published_string x) rows \<and>
      (\<forall>i j. i < j \<and> j < length rows \<and> published_string (rows ! i) = [] \<longrightarrow>
             published_string (rows ! j) = [])"
proof -
  let ?S = "sort_reverse published_string (found_reports c a)"
  let ?T = "py_slice_to ?S limit"
  have setS: "set ?S = set (found_reports c a)" by (rule set_sort_reverse)
  have okS: "list_all published_ok ?S" "list_all labels_ok ?S"
    using assms(6,7) by (simp_all add: list_all_iff setS)
  then have okT: "list_all published_ok ?T" "list_all labels_ok ?T"
    by (simp_all add: list_all_py_slice_to)
  from rows_of_slice [OF okT(2), of c] obtain rows where
    rows: "map_res (report_row c) ?T = Inr rows" "map Inr rows = map (report_row c) ?T"
    by blast
  have res: "snd (get_latest_reports_mentioning_threat_actor c n limit) = Inr rows"
    by (simp add: mentioning_resolved_eq [OF assms(1-6)] rows(1))
  have pub: "map published_string rows = map published_string ?T"
    by (rule rows_published [OF rows(2) okT(2) okT(1)])
  have descS: "sorted_wrt (\<lambda>x y. published_string y \<le> published_string x) ?S"
    by (rule sort_reverse_descending)
  then have "sorted_wrt (\<lambda>x y. published_string y \<le> published_string x) ?T"
    by (rule sorted_wrt_py_slice_to)
  then have "sorted_wrt (\<lambda>x y. y \<le> x) (map published_string ?T)"
    by (simp add: sorted_wrt_map)
  then have "sorted_wrt (\<lambda>x y. y \<le> x) (map published_string rows)"
    by (simp add: pub)
  then have descR: "sorted_wrt (\<lambda>x y. published_string y \<le> published_string x) rows"
    by (simp add: sorted_wrt_map)
  have last: "\<forall>i j. i < j \<and> j < length rows \<and> published_string (rows ! i) = [] \<longrightarrow>
             published_string (rows ! j) = []"
    using descending_empty_last [OF descR] by blast
  have slice: "0 \<le> limit \<longrightarrow> map Inr rows = map (report_row c) (take (nat limit) ?S)"
    using rows(2) by (simp add: py_slice_to_def)
  have stable: "\<forall>k. filter (\<lambda>r. published_string r = k) ?S =
           filter (\<lambda>r. published_string r = k) (found_reports c a)"
    by (simp add: sort_reverse_stable)
  have "mset ?S = mset (found_reports c a)" by (rule mset_sort_reverse)
  with res stable descS rows(2) slice pub descR last show ?thesis by blast
qed

theorem resolved_actor_reports_sorted_witness:
  "snd (get_latest_reports_mentioning_threat_actor demo_platform ''APT28'' 10) =
     Inr [PDict [(''stix_id'', PStr ''report--111''), (''name'', PStr ''APT28 Analysis''),
                 (''published'', PStr ''2024-12-01''), (''labels'', PStr ''apt''),
                 (''description'', PStr ''APT28 report'')],
          PDict [(''stix_id'', PStr ''report--333''), (''name'', PStr ''Older''),
                 (''published'', PStr ''2024-11-01''), (''labels'', PStr ''''),
                 (''description'', PStr ''Older report'')],
          PDict [(''stix_id'', PStr ''report--222''), (''name'', PStr ''Undated''),
                 (''published'', PStr ''''), (''labels'', PStr ''''),
                 (''description'', PStr '''')]] \<and>
   snd (get_latest_reports_mentioning_threat_actor demo_platform ''APT28'' 2) =
     Inr [PDict [(''stix_id'', PStr ''report--111''), (''name'', PStr ''APT28 Analysis''),
                 (''published'', PStr ''2024-12-01''), (''labels'', PStr ''apt''),
                 (''description'', PStr ''APT28 report'')],
          PDict [(''stix_id'', PStr ''report--333''), (''name'', PStr ''Older''),
                 (''published'', PStr ''2024-11-01''), (''labels'', PStr ''''),
                 (''description'', PStr ''Older report'')]] \<and>
   (\<exists>S rows.
      snd (get_latest_reports_mentioning_threat_actor demo_platform ''APT28'' 2) = Inr rows \<and>
      mset S = mset (found_reports demo_platform (PStr ''a1'')) \<and>
      (\<forall>k. filter (\<lambda>r. published_string r = k) S =
           filter (\<lambda>r. published_string r = k) (found_reports demo_platform (PStr ''a1''))) \<and>
      sorted_wrt (\<lambda>x y. published_string y \<le> published_string x) S \<and>
      map Inr rows = map (report_row demo_platform) (py_slice_to S 2) \<and>
      (0 \<le> (2::int) \<longrightarrow> map Inr rows = map (report_row demo_platform) (take (nat 2) S)) \<and>
      map published_string rows = map published_string (py_slice_to S 2) \<and>
      sorted_wrt (\<lambda>x y. published_string y \<le> published_string x) rows \<and>
      (\<forall>i j. i < j \<and> j < length rows \<and> published_string (rows ! i) = [] \<longrightarrow>
             published_string (rows ! j) = []))"
proof -
  have v10: "snd (get_latest_reports_mentioning_threat_actor demo_platform ''APT28'' 10) =
     Inr [PDict [(''stix_id'', PStr ''report--111''), (''name'', PStr ''APT28 Analysis''),
                 (''published'', PStr ''2024-12-01''), (''labels'', PStr ''apt''),
                 (''description'', PStr ''APT28 report'')],
          PDict [(''stix_id'', PStr ''report--333''), (''name'', PStr ''Older''),
                 (''published'', PStr ''2024-11-01''), (''labels'', PStr ''''),
                 (''description'', PStr ''Older report'')],
          PDict [(''stix_id'', PStr ''report--222''), (''name'', PStr ''Undated''),
                 (''published'', PStr ''''), (''labels'', PStr ''''),
                 (''description'', PStr '''')]]"
    by (simp add: demo_mentioning_APT28 py_slice_to_def demo_rows res_bind_def)
  have v2: "snd (get_latest_reports_mentioning_threat_actor demo_platform ''APT28'' 2) =
     Inr [PDict [(''stix_id'', PStr ''report--111''), (''name'', PStr ''APT28 Analysis''),
                 (''published'', PStr ''2024-12-01''), (''labels'', PStr ''apt''),
                 (''description'', PStr ''APT28 report'')],
          PDict [(''stix_id'', PStr ''report--333''), (''name'', PStr ''Older''),
                 (''published'', PStr ''2024-11-01''), (''labels'', PStr ''''),
                 (''description'', PStr ''Older report'')]]"
    by (simp add: demo_mentioning_APT28 py_slice_to_def demo_rows res_bind_def)
  from v10 v2 resolved_actor_reports_sorted [OF demo_hyps_a1, of 2]
  show ?thesis by (intro conjI)
qed

subsection \<open>Deduplication\<close>

text \<open>
  C1, as the code has it.  When the actor is resolved, with \<open>A\<close> the report identifiers
  of the forward direction and \<open>B\<close> those of the reverse direction, the tool fetches each
  distinct identifier of \<open>A \<union> B\<close> exactly once, and the returned list has at most one
  row for each distinct identifier (no report appears twice).  It has exactly one row
  for each when every fetch finds a report and the number of distinct identifiers is at
  most \<open>limit\<close>; an identifier whose fetch finds nothing has no row, and the rows past
  \<open>limit\<close> are cut.
\<close>

theorem merged_reports_fetched_once:
  assumes "read_by_name c ''threat_actor'' n \<noteq> PNone"
    and "py_subscript (read_by_name c ''threat_actor'' n) ''id'' = Inr a"
    and "list_all (is_relationship ''to'') (relations_from c a [''Report''])"
    and "list_all (is_relationship ''from'') (relations_to c a [''Report''])"
    and "list_all py_hashable (merged_ids c a)"
    and "list_all published_ok (found_reports c a)"
    and "list_all labels_ok (found_reports c a)"
    and "\<forall>xs. mset (set_order c xs) = mset xs"
  shows "filter is_read_id (fst (get_latest_reports_mentioning_threat_actor c n limit)) =
           map (ReadId ''report'') (fetched_ids c a) \<and>
         distinct (map py_hash_norm (fetched_ids c a)) \<and>
         py_hash_norm ` set (fetched_ids c a) =
           py_hash_norm ` (set (ids_of ''to'' (relations_from c a [''Report''])) \<union>
                           set (ids_of ''from'' (relations_to c a [''Report'']))) \<and>
         (\<exists>rows.
            snd (get_latest_reports_mentioning_threat_actor c n limit) = Inr rows \<and>
            image_mset Inr (mset rows) \<subseteq>#
              image_mset (\<lambda>i. report_row c (read_by_id c ''report'' i)) (mset (fetched_ids c a)) \<and>
            ((\<forall>i \<in> set (fetched_ids c a). py_truthy (read_by_id c ''report'' i)) \<and>
             int (length (fetched_ids c a)) \<le> limit \<longrightarrow>
               image_mset Inr (mset rows) =
                 image_mset (\<lambda>i. report_row c (read_by_id c ''report'' i))
                   (mset (fetched_ids c a))))"
proof -
  let ?D = "foldl py_set_add [] (merged_ids c a)"
  let ?S = "sort_reverse published_string (found_reports c a)"
  let ?T = "py_slice_to ?S limit"
  let ?row = "\<lambda>i. report_row c (read_by_id c ''report'' i)"
  have eq: "get_latest_reports_mentioning_threat_actor c n limit =
     (Read ''threat_actor'' n # RelationsFrom a [''Report''] # RelationsTo a [''Report''] #
        map (ReadId ''report'') (fetched_ids c a),
      map_res (report_row c) ?T)"
    by (rule mentioning_resolved_eq [OF assms(1-6)])
  have calls: "filter is_read_id (fst (get_latest_reports_mentioning_threat_actor c n limit)) =
           map (ReadId ''report'') (fetched_ids c a)"
    by (simp add: eq filter_read_id_map)
  have D: "distinct (map py_hash_norm ?D)"
    "py_hash_norm ` set ?D = py_hash_norm ` set (merged_ids c a)"
    using py_set_add_fold [of "[]" "merged_ids c a"] by simp_all
  have perm: "mset (fetched_ids c a) = mset ?D"
    using assms(8) by (simp add: fetched_ids_def)
  then have "mset (map py_hash_norm (fetched_ids c a)) = mset (map py_hash_norm ?D)"
    by simp
  then have dist: "distinct (map py_hash_norm (fetched_ids c a))"
    using D(1) mset_eq_imp_distinct_iff by blast
  have "set (fetched_ids c a) = set ?D"
    using perm by (rule mset_eq_setD)
  then have ids: "py_hash_norm ` set (fetched_ids c a) =
           py_hash_norm ` (set (ids_of ''to'' (relations_from c a [''Report''])) \<union>
                           set (ids_of ''from'' (relations_to c a [''Report''])))"
    using D(2) by (simp add: merged_ids_def)
  have setS: "set ?S = set (found_reports c a)" by (rule set_sort_reverse)
  have "list_all labels_ok ?S"
    using assms(7) by (simp add: list_all_iff setS)
  then have okT: "list_all labels_ok ?T" by (rule list_all_py_slice_to)
  from rows_of_slice [OF okT, of c] obtain rows where
    rows: "map_res (report_row c) ?T = Inr rows" "map Inr rows = map (report_row c) ?T"
    by blast
  have res: "snd (get_latest_reports_mentioning_threat_actor c n limit) = Inr rows"
    by (simp add: eq rows(1))
  have img: "image_mset Inr (mset rows) = image_mset (report_row c) (mset ?T)"
    using rows(2) by (metis mset_map)
  have found: "mset (found_reports c a) \<subseteq>#
                 image_mset (read_by_id c ''report'') (mset (fetched_ids c a))"
    by (simp add: found_reports_def)
  have "mset ?T \<subseteq># mset ?S" by (rule mset_py_slice_to)
  also have "mset ?S = mset (found_reports c a)" by (rule mset_sort_reverse)
  finally have "mset ?T \<subseteq># image_mset (read_by_id c ''report'') (mset (fetched_ids c a))"
    using found by (rule subset_mset.order_trans)
  then have "image_mset (report_row c) (mset ?T) \<subseteq>#
               image_mset (report_row c)
                 (image_mset (read_by_id c ''report'') (mset (fetched_ids c a)))"
    by (rule image_mset_subseteq_mono)
  then have sub: "image_mset Inr (mset rows) \<subseteq># image_mset ?row (mset (fetched_ids c a))"
    by (simp add: img multiset.map_comp comp_def)
  have full: "image_mset Inr (mset rows) = image_mset ?row (mset (fetched_ids c a))"
    if all: "\<forall>i \<in> set (fetched_ids c a). py_truthy (read_by_id c ''report'' i)"
      and len: "int (length (fetched_ids c a)) \<le> limit"
  proof -
    from all have f: "found_reports c a = map (read_by_id c ''report'') (fetched_ids c a)"
      by (simp add: found_reports_def)
    have "length ?S = length (fetched_ids c a)"
      by (simp add: length_sort_reverse f)
    with len have "?T = ?S" by (simp add: py_slice_to_def)
    then have "mset ?T = image_mset (read_by_id c ''report'') (mset (fetched_ids c a))"
      by (simp add: mset_sort_reverse f)
    then show ?thesis
      by (simp add: img multiset.map_comp comp_def)
  qed
  from calls dist ids res sub full show ?thesis by blast
qed

theorem merged_reports_fetched_once_witness:
  "snd (get_latest_reports_mentioning_threat_actor demo_platform ''Lazarus'' 10) =
     Inr [PDict [(''stix_id'', PStr ''report--111''), (''name'', PStr ''APT28 Analysis''),
                 (''published'', PStr ''2024-12-01''), (''labels'', PStr ''apt''),
                 (''description'', PStr ''APT28 report'')],
          PDict [(''stix_id'', PStr ''report--333''), (''name'', PStr ''Older''),
                 (''published'', PStr ''2024-11-01''), (''labels'', PStr ''''),
                 (''description'', PStr ''Older report'')]] \<and>
   ids_of ''to'' (relations_from demo_platform (PStr ''a2'') [''Report'']) =
     [PStr ''r1'', PStr ''r3''] \<and>
   ids_of ''from'' (relations_to demo_platform (PStr ''a2'') [''Report'']) = [PStr ''r1''] \<and>
   fetched_ids demo_platform (PStr ''a2'') = [PStr ''r3'', PStr ''r1''] \<and>
   filter is_read_id (fst (get_latest_reports_mentioning_threat_actor demo_platform ''Lazarus'' 10)) =
     map (ReadId ''report'') (fetched_ids demo_platform (PStr ''a2'')) \<and>
   distinct (map py_hash_norm (fetched_ids demo_platform (PStr ''a2''))) \<and>
   py_hash_norm ` set (fetched_ids demo_platform (PStr ''a2'')) =
     py_hash_norm ` (set (ids_of ''to'' (relations_from demo_platform (PStr ''a2'') [''Report''])) \<union>
                     set (ids_of ''from'' (relations_to demo_platform (PStr ''a2'') [''Report'']))) \<and>
   (\<exists>rows.
      snd (get_latest_reports_mentioning_threat_actor demo_platform ''Lazarus'' 10) = Inr rows \<and>
      image_mset Inr (mset rows) \<subseteq>#
        image_mset (\<lambda>i. report_row demo_platform (read_by_id demo_platform ''report'' i))
          (mset (fetched_ids demo_platform (PStr ''a2''))) \<and>
      ((\<forall>i \<in> set (fetched_ids demo_platform (PStr ''a2'')).
          py_truthy (read_by_id demo_platform ''report'' i)) \<and>
       int (length (fetched_ids demo_platform (PStr ''a2''))) \<le> 10 \<longrightarrow>
         image_mset Inr (mset rows) =
           image_mset (\<lambda>i. report_row demo_platform (read_by_id demo_platform ''report'' i))
             (mset (fetched_ids demo_platform (PStr ''a2'')))))"
proof -
  have h8: "\<forall>xs. mset (set_order demo_platform xs) = mset xs"
    by (simp add: demo_set_order)
  have v: "snd (get_latest_reports_mentioning_threat_actor demo_platform ''Lazarus'' 10) =
     Inr [PDict [(''stix_id'', PStr ''report--111''), (''name'', PStr ''APT28 Analysis''),
                 (''published'', PStr ''2024-12-01''), (''labels'', PStr ''apt''),
                 (''description'', PStr ''APT28 report'')],
          PDict [(''stix_id'', PStr ''report--333''), (''name'', PStr ''Older''),
                 (''published'', PStr ''2024-11-01''), (''labels'', PStr ''''),
                 (''description'', PStr ''Older report'')]]"
    by (simp add: demo_mentioning_Lazarus py_slice_to_def demo_rows res_bind_def)
  from v demo_ids_a2 demo_fetched_a2
    merged_reports_fetched_once [OF demo_hyps_a2 h8, of 10]
  show ?thesis by (intro conjI) blast+
qed

text \<open>Here \<open>A = {r1, r2}\<close> and \<open>B = {r1, r3, r4}\<close> share \<open>r1\<close>.  The fetch of
  \<open>r4\<close> finds nothing, so with \<open>limit = 10\<close> the four distinct identifiers give three
  rows; with \<open>limit = 1\<close> they give one.\<close>

theorem merged_reports_missing_counterexample:
  "ids_of ''to'' (relations_from demo_platform (PStr ''a1'') [''Report'']) =
     [PStr ''r1'', PStr ''r2''] \<and>
   ids_of ''from'' (relations_to demo_platform (PStr ''a1'') [''Report'']) =
     [PStr ''r1'', PStr ''r3'', PStr ''r4''] \<and>
   read_by_id demo_platform ''report'' (PStr ''r4'') = PNone \<and>
   snd (get_latest_reports_mentioning_threat_actor demo_platform ''APT28'' 10) =
     Inr [PDict [(''stix_id'', PStr ''report--111''), (''name'', PStr ''APT28 Analysis''),
                 (''published'', PStr ''2024-12-01''), (''labels'', PStr ''apt''),
                 (''description'', PStr ''APT28 report'')],
          PDict [(''stix_id'', PStr ''report--333''), (''name'', PStr ''Older''),
                 (''published'', PStr ''2024-11-01''), (''labels'', PStr ''''),
                 (''description'', PStr ''Older report'')],
          PDict [(''stix_id'', PStr ''report--222''), (''name'', PStr ''Undated''),
                 (''published'', PStr ''''), (''labels'', PStr ''''),
                 (''description'', PStr '''')]] \<and>
   snd (get_latest_reports_mentioning_threat_actor demo_platform ''APT28'' 1) =
     Inr [PDict [(''stix_id'', PStr ''report--111''), (''name'', PStr ''APT28 Analysis''),
                 (''published'', PStr ''2024-12-01''), (''labels'', PStr ''apt''),
                 (''description'', PStr ''APT28 report'')]]"
  by (simp add: demo_ids_a1 demo_read_by_id demo_mentioning_APT28 py_slice_to_def demo_rows
      res_bind_def)


section \<open>Publication dates that are \<open>None\<close>\<close>

lemma search_reports_eq:
  "search_reports c t =
     ([ListEntities ''report'' \<lparr>search = Some t, orderBy = None, orderMode = None, first = None\<rparr>],
      map_res (report_row c)
        (list_entities c ''report''
           \<lparr>search = Some t, orderBy = None, orderMode = None, first = None\<rparr>))"
proof -
  have "(\<lambda>report.
               res_bind (py_get report ''published'' PNone) (\<lambda>p.
               res_bind (py_get report ''objectMarking'' (PList [])) (\<lambda>unused.
               res_bind (py_get report ''labels'' PNone) (\<lambda>l.
               res_bind (let labels = py_or l (PList []) in
                         if py_is_list labels then py_join '', '' labels
                         else Inr (py_str (py_repr c) labels)) (\<lambda>labels_str.
               res_bind (py_get report ''stix_id'' (PStr '''')) (\<lambda>sid.
               res_bind (py_get report ''name'' (PStr '''')) (\<lambda>nm.
               res_bind (py_get report ''description'' PNone) (\<lambda>d.
                 Inr (PDict [(''stix_id'', sid), (''name'', nm),
                             (''published'', py_or p (PStr '''')),
                             (''labels'', PStr labels_str),
                             (''description'', py_or d (PStr ''''))]))))))))) = report_row c"
  proof
    fix report
    show "res_bind (py_get report ''published'' PNone) (\<lambda>p.
               res_bind (py_get report ''objectMarking'' (PList [])) (\<lambda>unused.
               res_bind (py_get report ''labels'' PNone) (\<lambda>l.
               res_bind (let labels = py_or l (PList []) in
                         if py_is_list labels then py_join '', '' labels
                         else Inr (py_str (py_repr c) labels)) (\<lambda>labels_str.
               res_bind (py_get report ''stix_id'' (PStr '''')) (\<lambda>sid.
               res_bind (py_get report ''name'' (PStr '''')) (\<lambda>nm.
               res_bind (py_get report ''description'' PNone) (\<lambda>d.
                 Inr (PDict [(''stix_id'', sid), (''name'', nm),
                             (''published'', py_or p (PStr '''')),
                             (''labels'', PStr labels_str),
                             (''description'', py_or d (PStr ''''))])))))))) = report_row c report"
      by (cases report) (simp_all add: report_row_def res_bind_def)
  qed
  then show ?thesis
    by (simp add: search_reports_def Let_def io_simps io_lift_def)
qed

lemma get_latest_reports_by_sector_eq:
  "get_latest_reports_by_sector c t limit =
     ([ListEntities ''report'' \<lparr>search = Some t, orderBy = Some ''published'',
                                orderMode = Some ''desc'', first = Some limit\<rparr>],
      map_res (report_row c)
        (list_entities c ''report'' \<lparr>search = Some t, orderBy = Some ''published'',
                                     orderMode = Some ''desc'', first = Some limit\<rparr>))"
  by (simp add: get_latest_reports_by_sector_def Let_def io_simps io_lift_def)

lemma get_latest_reports_eq:
  "get_latest_reports c limit =
     ([ListEntities ''report'' \<lparr>search = None, orderBy = Some ''published'',
                                orderMode = Some ''desc'', first = Some limit\<rparr>],
      map_res (report_row c)
        (list_entities c ''report'' \<lparr>search = None, orderBy = Some ''published'',
                                     orderMode = Some ''desc'', first = Some limit\<rparr>))"
  by (simp add: get_latest_reports_def Let_def io_simps io_lift_def)

lemma mentioning_unresolved_eq:
  "read_by_name c ''threat_actor'' t = PNone \<Longrightarrow>
   get_latest_reports_mentioning_threat_actor c t limit =
     ([Read ''threat_actor'' t,
       ListEntities ''report'' \<lparr>search = Some t, orderBy = Some ''published'',
                                orderMode = Some ''desc'', first = Some limit\<rparr>],
      map_res (report_row c)
        (list_entities c ''report'' \<lparr>search = Some t, orderBy = Some ''published'',
                                     orderMode = Some ''desc'', first = Some limit\<rparr>))"
  by (simp add: get_latest_reports_mentioning_threat_actor_def find_entity_by_name_def
      io_simps io_call_def io_lift_def Let_def)

lemma rows_null_published:
  assumes "list_all labels_ok hs" and "k < length hs" and "hs ! k = PDict d"
    and "map_of d ''published'' = Some PNone"
  shows "row_published_at (map_res (report_row c) hs) k = Some (PStr '''')"
proof -
  from rows_of_slice [OF assms(1), of c] obtain rows where
    rows: "map_res (report_row c) hs = Inr rows" "map Inr rows = map (report_row c) hs"
    by blast
  from rows(2) have len: "length rows = length hs" by (metis length_map)
  from rows(2) assms(2) len have k: "report_row c (hs ! k) = Inr (rows ! k)"
    by (metis nth_map)
  from assms(1,2) have "labels_ok (hs ! k)" by (simp add: list_all_length)
  with assms(3) have "labels_ok (PDict d)" by simp
  from report_row_fields [OF this, of c] obtain ls where
    "report_row c (PDict d) =
           Inr (PDict [(''stix_id'', field_or_empty d ''stix_id''),
                       (''name'', field_or_empty d ''name''),
                       (''published'',
                          py_or (case map_of d ''published'' of None \<Rightarrow> PNone | Some v \<Rightarrow> v) (PStr '''')),
                       (''labels'', PStr ls),
                       (''description'',
                          py_or (case map_of d ''description'' of None \<Rightarrow> PNone | Some v \<Rightarrow> v) (PStr ''''))])"
    by blast
  with k assms(3,4) have "rows ! k =
      PDict [(''stix_id'', field_or_empty d ''stix_id''),
             (''name'', field_or_empty d ''name''),
             (''published'', PStr ''''),
             (''labels'', PStr ls),
             (''description'',
                py_or (case map_of d ''description'' of None \<Rightarrow> PNone | Some v \<Rightarrow> v) (PStr ''''))]"
    by (simp add: py_or_def)
  with rows(1) len assms(2) show ?thesis
    by (simp add: row_published_at_def)
qed

text \<open>
  C10.  For a found report whose \<open>published\<close> field is present and \<open>None\<close>,
  \<open>get_report_details\<close> returns \<open>None\<close> as \<open>published\<close>.  For the same record at any
  position of the list they format, \<open>search_reports\<close>, \<open>get_latest_reports_by_sector\<close>,
  \<open>get_latest_reports\<close> and both branches of
  \<open>get_latest_reports_mentioning_threat_actor\<close> return the empty string as \<open>published\<close>
  in the row at that position, and so does their shared loop body.
\<close>

theorem null_published_kept_by_report_details:
  assumes "map_of d ''published'' = Some PNone" and "labels_ok (PDict d)"
  shows
  "(read_by_name c ''report'' t = PDict d \<longrightarrow>
      (\<exists>row. snd (get_report_details c t) = Inr (PDict row) \<and>
             map_of row ''published'' = Some PNone)) \<and>
   (\<exists>row. report_row c (PDict d) = Inr (PDict row) \<and>
          map_of row ''published'' = Some (PStr '''')) \<and>
   (list_all labels_ok
      (list_entities c ''report''
         \<lparr>search = Some t, orderBy = None, orderMode = None, first = None\<rparr>) \<and>
    k < length (list_entities c ''report''
         \<lparr>search = Some t, orderBy = None, orderMode = None, first = None\<rparr>) \<and>
    list_entities c ''report''
         \<lparr>search = Some t, orderBy = None, orderMode = None, first = None\<rparr> ! k = PDict d \<longrightarrow>
      row_published_at (snd (search_reports c t)) k = Some (PStr '''')) \<and>
   (list_all labels_ok
      (list_entities c ''report'' \<lparr>search = Some t, orderBy = Some ''published'',
                                   orderMode = Some ''desc'', first = Some limit\<rparr>) \<and>
    k < length (list_entities c ''report'' \<lparr>search = Some t, orderBy = Some ''published'',
                                   orderMode = Some ''desc'', first = Some limit\<rparr>) \<and>
    list_entities c ''report'' \<lparr>search = Some t, orderBy = Some ''published'',
                                orderMode = Some ''desc'', first = Some limit\<rparr> ! k = PDict d \<longrightarrow>
      row_published_at (snd (get_latest_reports_by_sector c t limit)) k = Some (PStr '''') \<and>
      (read_by_name c ''threat_actor'' t = PNone \<longrightarrow>
         row_published_at (snd (get_latest_reports_mentioning_threat_actor c t limit)) k =
           Some (PStr ''''))) \<and>
   (list_all labels_ok
      (list_entities c ''report'' \<lparr>search = None, orderBy = Some ''published'',
                                   orderMode = Some ''desc'', first = Some limit\<rparr>) \<and>
    k < length (list_entities c ''report'' \<lparr>search = None, orderBy = Some ''published'',
                                   orderMode = Some ''desc'', first = Some limit\<rparr>) \<and>
    list_entities c ''report'' \<lparr>search = None, orderBy = Some ''published'',
                                orderMode = Some ''desc'', first = Some limit\<rparr> ! k = PDict d \<longrightarrow>
      row_published_at (snd (get_latest_reports c limit)) k = Some (PStr '''')) \<and>
   (read_by_name c ''threat_actor'' t \<noteq> PNone \<and>
    py_subscript (read_by_name c ''threat_actor'' t) ''id'' = Inr a \<and>
    list_all (is_relationship ''to'') (relations_from c a [''Report'']) \<and>
    list_all (is_relationship ''from'') (relations_to c a [''Report'']) \<and>
    list_all py_hashable (merged_ids c a) \<and>
    list_all published_ok (found_reports c a) \<and>
    list_all labels_ok (found_reports c a) \<and>
    k < length (py_slice_to (sort_reverse published_string (found_reports c a)) limit) \<and>
    py_slice_to (sort_reverse published_string (found_reports c a)) limit ! k = PDict d \<longrightarrow>
      row_published_at (snd (get_latest_reports_mentioning_threat_actor c t limit)) k =
        Some (PStr ''''))"
proof -
  from labels_text_defined [OF assms(2), of c] obtain ls where
    ls: "(let labels = py_or (case map_of d ''labels'' of None \<Rightarrow> PNone | Some v \<Rightarrow> v) (PList [])
          in if py_is_list labels then py_join '', '' labels
             else Inr (py_str (py_repr c) labels)) = Inr ls" ..
  have details: "read_by_name c ''report'' t = PDict d \<longrightarrow>
      (\<exists>row. snd (get_report_details c t) = Inr (PDict row) \<and>
             map_of row ''published'' = Some PNone)"
    using assms(1) ls
    by (simp add: get_report_details_def find_entity_by_name_def io_simps io_lift_def res_bind_def)
  have row: "\<exists>row. report_row c (PDict d) = Inr (PDict row) \<and>
                   map_of row ''published'' = Some (PStr '''')"
    using assms(1) ls by (simp add: report_row_def res_bind_def py_or_def)
  have search: "row_published_at (snd (search_reports c t)) k = Some (PStr '''')"
    if "list_all labels_ok
          (list_entities c ''report''
             \<lparr>search = Some t, orderBy = None, orderMode = None, first = None\<rparr>)"
      "k < length (list_entities c ''report''
             \<lparr>search = Some t, orderBy = None, orderMode = None, first = None\<rparr>)"
      "list_entities c ''report''
             \<lparr>search = Some t, orderBy = None, orderMode = None, first = None\<rparr> ! k = PDict d"
    using rows_null_published [OF that assms(1), of c] by (simp add: search_reports_eq)
  have sector: "row_published_at (snd (get_latest_reports_by_sector c t limit)) k = Some (PStr '''')"
    and fallback: "read_by_name c ''threat_actor'' t = PNone \<longrightarrow>
         row_published_at (snd (get_latest_reports_mentioning_threat_actor c t limit)) k =
           Some (PStr '''')"
    if "list_all labels_ok
          (list_entities c ''report'' \<lparr>search = Some t, orderBy = Some ''published'',
                                       orderMode = Some ''desc'', first = Some limit\<rparr>)"
      "k < length (list_entities c ''report'' \<lparr>search = Some t, orderBy = Some ''published'',
                                       orderMode = Some ''desc'', first = Some limit\<rparr>)"
      "list_entities c ''report'' \<lparr>search = Some t, orderBy = Some ''published'',
                                    orderMode = Some ''desc'', first = Some limit\<rparr> ! k = PDict d"
    using rows_null_published [OF that assms(1), of c]
    by (simp_all add: get_latest_reports_by_sector_eq mentioning_unresolved_eq)
  have latest: "row_published_at (snd (get_latest_reports c limit)) k = Some (PStr '''')"
    if "list_all labels_ok
          (list_entities c ''report'' \<lparr>search = None, orderBy = Some ''published'',
                                       orderMode = Some ''desc'', first = Some limit\<rparr>)"
      "k < length (list_entities c ''report'' \<lparr>search = None, orderBy = Some ''published'',
                                       orderMode = Some ''desc'', first = Some limit\<rparr>)"
      "list_entities c ''report'' \<lparr>search = None, orderBy = Some ''published'',
                                    orderMode = Some ''desc'', first = Some limit\<rparr> ! k = PDict d"
    using rows_null_published [OF that assms(1), of c] by (simp add: get_latest_reports_eq)
  have resolved: "row_published_at (snd (get_latest_reports_mentioning_threat_actor c t limit)) k =
        Some (PStr '''')"
    if h: "read_by_name c ''threat_actor'' t \<noteq> PNone"
      "py_subscript (read_by_name c ''threat_actor'' t) ''id'' = Inr a"
      "list_all (is_relationship ''to'') (relations_from c a [''Report''])"
      "list_all (is_relationship ''from'') (relations_to c a [''Report''])"
      "list_all py_hashable (merged_ids c a)"
      "list_all published_ok (found_reports c a)"
      and l: "list_all labels_ok (found_reports c a)"
      and k: "k < length (py_slice_to (sort_reverse published_string (found_reports c a)) limit)"
      "py_slice_to (sort_reverse published_string (found_reports c a)) limit ! k = PDict d"
  proof -
    have "list_all labels_ok (sort_reverse published_string (found_reports c a))"
      using l by (simp add: list_all_iff set_sort_reverse)
    then have "list_all labels_ok
                 (py_slice_to (sort_reverse published_string (found_reports c a)) limit)"
      by (rule list_all_py_slice_to)
    from rows_null_published [OF this k assms(1), of c] show ?thesis
      by (simp add: mentioning_resolved_eq [OF h])
  qed
  from details row search sector fallback latest resolved show ?thesis by blast
qed

theorem null_published_kept_by_report_details_witness:
  "(\<exists>row. snd (get_report_details demo_platform ''Undated'') = Inr (PDict row) \<and>
          map_of row ''published'' = Some PNone) \<and>
   row_published_at (snd (search_reports demo_platform ''Undated'')) 1 = Some (PStr '''') \<and>
   row_published_at (snd (get_latest_reports_by_sector demo_platform ''Undated'' 10)) 1 =
     Some (PStr '''') \<and>
   row_published_at (snd (get_latest_reports_mentioning_threat_actor demo_platform ''Undated'' 10)) 1 =
     Some (PStr '''') \<and>
   row_published_at (snd (get_latest_reports demo_platform 10)) 2 = Some (PStr '''') \<and>
   row_published_at (snd (get_latest_reports_mentioning_threat_actor demo_platform ''APT28'' 10)) 2 =
     Some (PStr '''')"
proof -
  let ?d = "[(''stix_id'', PStr ''report--222''), (''name'', PStr ''Undated''),
             (''published'', PNone), (''labels'', PNone), (''description'', PNone)]"
  have r2: "report_2 = PDict ?d" by (simp add: report_2_def)
  have p: "map_of ?d ''published'' = Some PNone" by simp
  have l: "labels_ok (PDict ?d)" by (simp add: labels_ok_def)
  have rd: "read_by_name demo_platform ''report'' ''Undated'' = PDict ?d"
    by (simp add: demo_platform_def report_2_def)
  have ta: "read_by_name demo_platform ''threat_actor'' ''Undated'' = PNone"
    by (simp add: demo_platform_def)
  have s1: "list_entities demo_platform ''report''
              \<lparr>search = Some ''Undated'', orderBy = None, orderMode = None, first = None\<rparr> =
            [report_1, PDict ?d]"
    by (simp add: demo_platform_def report_2_def)
  have s2: "list_entities demo_platform ''report''
              \<lparr>search = Some ''Undated'', orderBy = Some ''published'',
               orderMode = Some ''desc'', first = Some 10\<rparr> = [report_1, PDict ?d]"
    by (simp add: demo_platform_def report_2_def)
  have s3: "list_entities demo_platform ''report''
              \<lparr>search = None, orderBy = Some ''published'',
               orderMode = Some ''desc'', first = Some 10\<rparr> = [report_1, report_3, PDict ?d]"
    by (simp add: demo_platform_def report_2_def)
  have ok: "labels_ok report_1" "labels_ok report_3" by (rule demo_reports_ok)+
  have slice: "py_slice_to (sort_reverse published_string (found_reports demo_platform (PStr ''a1''))) 10
                 = [report_1, report_3, PDict ?d]"
    by (simp add: demo_found_a1 demo_sorted_a1 py_slice_to_def r2 [symmetric])
  have c1: "\<exists>row. snd (get_report_details demo_platform ''Undated'') = Inr (PDict row) \<and>
          map_of row ''published'' = Some PNone"
    using null_published_kept_by_report_details [OF p l, where c = demo_platform
        and t = "''Undated''"] rd
    by simp
  have c2: "row_published_at (snd (search_reports demo_platform ''Undated'')) 1 = Some (PStr '''')"
    and c3: "row_published_at (snd (get_latest_reports_by_sector demo_platform ''Undated'' 10)) 1 =
               Some (PStr '''')"
    and c4: "row_published_at
               (snd (get_latest_reports_mentioning_threat_actor demo_platform ''Undated'' 10)) 1 =
               Some (PStr '''')"
    using null_published_kept_by_report_details [OF p l, where c = demo_platform
        and t = "''Undated''" and k = 1 and limit = 10] s1 s2 ta ok l
    by simp_all
  have c5: "row_published_at (snd (get_latest_reports demo_platform 10)) 2 = Some (PStr '''')"
    using null_published_kept_by_report_details [OF p l, where c = demo_platform
        and k = 2 and limit = 10] s3 ok l
    by simp
  have c6: "row_published_at
              (snd (get_latest_reports_mentioning_threat_actor demo_platform ''APT28'' 10)) 2 =
              Some (PStr '''')"
    using null_published_kept_by_report_details [OF p l, where c = demo_platform
        and t = "''APT28''" and a = "PStr ''a1''" and k = 2 and limit = 10]
      demo_hyps_a1 slice
    by simp
  from c1 c2 c3 c4 c5 c6 show ?thesis by blast
qed

end
